theory Spec2Isabelle
  imports Complex_Main "HOL-Library.Multiset"
begin

section \<open>Data model\<close>

text \<open>
  Object ids are compared through their string form throughout the source
  (\<^verbatim>\<open>_id.toString() === productId\<close>), so an id is a string here: the id of a stored
  document is its \<^verbatim>\<open>toString()\<close>, twenty-four lower-case hex digits. JavaScript numbers are
  modelled as exact reals, dates as milliseconds since the epoch.
\<close>

type_synonym oid = string
type_synonym time = int

datatype applyMode = PerItem | BulkPercent | BulkAmount

text \<open>
  A product's \<^verbatim>\<open>category\<close> is an ObjectId in a stored or \<^verbatim>\<open>toObject()\<close> product and a
  populated \<^verbatim>\<open>{_id, name}\<close> object in the product controller's listings.
\<close>

datatype categoryRef = CategoryId oid | CategoryDoc oid string

record IProduct =
  p_id :: oid
  p_title :: string
  price :: real
  p_offerPrice :: "real option"
  category :: "categoryRef option"
  p_isActive :: bool

text \<open>
  \<^verbatim>\<open>IOfferItem\<close>. The type parameter is what \<^verbatim>\<open>product\<close> holds: an \<^typ>\<open>oid\<close> in a stored
  campaign, and after \<^verbatim>\<open>populate('items.product', ...)\<close> the referenced product document,
  or null (\<^const>\<open>None\<close>) when the reference dangles.
\<close>

record 'p IOfferItem =
  product :: 'p
  offerPrice :: "real option"
  percent :: "real option"

text \<open>
  The \<^verbatim>\<open>geo\<close> field: a point \<^verbatim>\<open>[lng, lat]\<close> with an optional radius in meters, or a polygon.
\<close>

datatype geoTarget =
  GeoPoint real real "real option"
  | GeoPolygon "(real \<times> real) list list"

text \<open>
  \<^verbatim>\<open>IOfferCampaign\<close>. Array fields that are absent and array fields that are empty are both
  the empty list. \<^verbatim>\<open>relevanceScore\<close> is the transient property that
  \<^verbatim>\<open>resolveRelevantOffers\<close> attaches when a cart is supplied; it is undefined in a stored
  campaign.
\<close>

record 'p IOfferCampaign =
  c_id :: oid
  title :: string
  startsAt :: "time option"
  endsAt :: "time option"
  isActive :: bool
  applyMode :: applyMode
  bulkPercent :: "real option"
  bulkAmount :: "real option"
  items :: "'p IOfferItem list"
  branches :: "oid list"
  cities :: "string list"
  geo :: "geoTarget option"
  categoryIds :: "oid list"
  productIds :: "oid list"
  priority :: int
  stackable :: bool
  branch :: "oid option"
  relevanceScore :: "int option"

type_synonym storedOffer = "oid IOfferCampaign"
type_synonym populatedOffer = "IProduct option IOfferCampaign"

section \<open>Pricing calculator (offer.service.ts, calculateEffectivePrices)\<close>

text \<open>\<^verbatim>\<open>Math.round(x)\<close>: the nearest integer, a half rounding towards plus infinity.\<close>

definition mathRound :: "real \<Rightarrow> real" where
  "mathRound x = of_int \<lfloor>x + 1 / 2\<rfloor>"

text \<open>\<^verbatim>\<open>Math.round(x * 100) / 100\<close>.\<close>

definition round2 :: "real \<Rightarrow> real" where
  "round2 x = mathRound (x * 100) / 100"

text \<open>
  JavaScript truthiness of an optional number: \<^verbatim>\<open>undefined\<close>, \<^verbatim>\<open>null\<close> and \<^verbatim>\<open>0\<close> are falsy.
\<close>

definition truthyNum :: "real option \<Rightarrow> bool" where
  "truthyNum v = (case v of None \<Rightarrow> False | Some x \<Rightarrow> x \<noteq> 0)"

text \<open>
  \<^verbatim>\<open>offer.items?.find(item => item.product && item.product._id.toString() === productId)\<close>
\<close>

definition directItem ::
  "populatedOffer \<Rightarrow> oid \<Rightarrow> IProduct option IOfferItem option" where
  "directItem offer productId =
     find (\<lambda>item. case product item of None \<Rightarrow> False | Some pr \<Rightarrow> p_id pr = productId)
       (items offer)"

text \<open>
  \<^verbatim>\<open>product.category?.toString() || product.category\<close>, compared with \<^verbatim>\<open>===\<close> against the
  string form of a category id. A populated category object prints as
  \<^verbatim>\<open>[object Object]\<close>.
\<close>

definition productCategoryId :: "IProduct \<Rightarrow> string option" where
  "productCategoryId p =
     (case category p of
        None \<Rightarrow> None
      | Some (CategoryId c) \<Rightarrow> Some c
      | Some (CategoryDoc c n) \<Rightarrow> Some ''[object Object]'')"

text \<open>
  The three coverage tests of the loop body, in the source's order; each later test runs
  only when \<^verbatim>\<open>appliesToProduct\<close> is still false.
\<close>

definition appliesToProduct :: "populatedOffer \<Rightarrow> IProduct \<Rightarrow> bool" where
  "appliesToProduct offer p =
     (directItem offer (p_id p) \<noteq> None
      \<or> (productIds offer \<noteq> [] \<and> p_id p \<in> set (productIds offer))
      \<or> (categoryIds offer \<noteq> [] \<and>
          (case productCategoryId p of
             None \<Rightarrow> False
           | Some c \<Rightarrow> c \<in> set (categoryIds offer))))"

text \<open>
  The price set by the direct item under \<^verbatim>\<open>perItem\<close>: the fixed price when it is truthy and
  positive, else the percent when it is truthy and positive, else the original price.
\<close>

definition perItemPrice :: "IProduct option IOfferItem \<Rightarrow> real \<Rightarrow> real" where
  "perItemPrice item originalPrice =
     (if truthyNum (offerPrice item) \<and> the (offerPrice item) > 0 then the (offerPrice item)
      else if truthyNum (percent item) \<and> the (percent item) > 0
        then originalPrice * (1 - the (percent item) / 100)
      else originalPrice)"

text \<open>
  \<^verbatim>\<open>calculatedPrice\<close> at the end of one loop iteration, for an offer that applies.
\<close>

definition calculatedPrice :: "populatedOffer \<Rightarrow> IProduct \<Rightarrow> real" where
  "calculatedPrice offer p =
     (let originalPrice = price p;
          afterItem =
            (case directItem offer (p_id p) of
               None \<Rightarrow> originalPrice
             | Some item \<Rightarrow>
                 if applyMode offer = PerItem then perItemPrice item originalPrice
                 else originalPrice)
      in if appliesToProduct offer p \<and> applyMode offer \<noteq> PerItem then
           (if applyMode offer = BulkPercent \<and> truthyNum (bulkPercent offer)
              then originalPrice * (1 - the (bulkPercent offer) / 100)
            else if applyMode offer = BulkAmount \<and> truthyNum (bulkAmount offer)
              then max 0 (originalPrice - the (bulkAmount offer))
            else afterItem)
         else afterItem)"

text \<open>An entry of \<^verbatim>\<open>applicableOffers\<close>.\<close>

record applicableOffer =
  ao_id :: oid
  ao_title :: string
  ao_discount :: real
  ao_percent :: real
  ao_applyMode :: applyMode

text \<open>The mutable locals of the per-product loop.\<close>

record priceAcc =
  acc_effectivePrice :: real
  acc_hasOffer :: bool
  acc_offerDiscount :: real
  acc_offerPercent :: real
  acc_applicableOffers :: "applicableOffer list"

definition priceStep :: "IProduct \<Rightarrow> priceAcc \<Rightarrow> populatedOffer \<Rightarrow> priceAcc" where
  "priceStep p acc offer =
     (if appliesToProduct offer p \<and> calculatedPrice offer p < acc_effectivePrice acc then
        (let effective = calculatedPrice offer p;
             discount = price p - effective;
             pct = mathRound ((discount / price p) * 100)
         in \<lparr> acc_effectivePrice = effective,
              acc_hasOffer = True,
              acc_offerDiscount = discount,
              acc_offerPercent = pct,
              acc_applicableOffers = acc_applicableOffers acc @
                [\<lparr> ao_id = c_id offer, ao_title = title offer, ao_discount = discount,
                   ao_percent = pct, ao_applyMode = applyMode offer \<rparr>] \<rparr>)
      else acc)"

definition priceLoop :: "IProduct \<Rightarrow> populatedOffer list \<Rightarrow> priceAcc" where
  "priceLoop p offers =
     foldl (priceStep p)
       \<lparr> acc_effectivePrice = price p, acc_hasOffer = False, acc_offerDiscount = 0,
         acc_offerPercent = 0, acc_applicableOffers = [] \<rparr>
       offers"

text \<open>
  \<^verbatim>\<open>IProductWithOffer\<close>. The price fields are optional because the \<^verbatim>\<open>catch\<close> branch copies
  \<^verbatim>\<open>product.price\<close> from the raw input, which is undefined for a product given by id.
\<close>

record IProductWithOffer =
  w_id :: "oid option"
  originalPrice :: "real option"
  effectivePrice :: "real option"
  hasOffer :: bool
  offerDiscount :: "real option"
  offerPercent :: "real option"
  applicableOffers :: "applicableOffer list option"

text \<open>The body of \<^verbatim>\<open>fullProducts.map(product => ...)\<close>.\<close>

definition priceProduct :: "populatedOffer list \<Rightarrow> IProduct \<Rightarrow> IProductWithOffer" where
  "priceProduct offers p =
     (let acc = priceLoop p offers
      in \<lparr> w_id = Some (p_id p),
           originalPrice = Some (price p),
           effectivePrice = Some (round2 (acc_effectivePrice acc)),
           hasOffer = acc_hasOffer acc,
           offerDiscount =
             (if acc_hasOffer acc then Some (round2 (acc_offerDiscount acc)) else None),
           offerPercent = (if acc_hasOffer acc then Some (acc_offerPercent acc) else None),
           applicableOffers =
             (if acc_hasOffer acc then Some (acc_applicableOffers acc) else None) \<rparr>)"

text \<open>
  The candidate prices of a product: the \<^verbatim>\<open>calculatedPrice\<close> of every offer of the list that
  applies to it.
\<close>

definition candidatePrices :: "populatedOffer list \<Rightarrow> IProduct \<Rightarrow> real set" where
  "candidatePrices offers p =
     (\<lambda>offer. calculatedPrice offer p) ` {offer \<in> set offers. appliesToProduct offer p}"

text \<open>
  The price formulas as the specification words them: under \<^verbatim>\<open>perItem\<close> the matching item's
  fixed offer price if set, else \<^verbatim>\<open>price * (1 - percent/100)\<close> if its percent is set, else no
  discount; \<^verbatim>\<open>bulkPercent\<close> gives \<^verbatim>\<open>price * (1 - percent/100)\<close>; \<^verbatim>\<open>bulkAmount\<close> gives
  \<^verbatim>\<open>max(0, price - amount)\<close>.
\<close>

definition specCampaignPrice :: "populatedOffer \<Rightarrow> IProduct \<Rightarrow> real" where
  "specCampaignPrice offer p =
     (case applyMode offer of
        PerItem \<Rightarrow>
          (case directItem offer (p_id p) of
             None \<Rightarrow> price p
           | Some item \<Rightarrow>
               (case offerPrice item of
                  Some v \<Rightarrow> v
                | None \<Rightarrow>
                    (case percent item of
                       Some pc \<Rightarrow> price p * (1 - pc / 100)
                     | None \<Rightarrow> price p)))
      | BulkPercent \<Rightarrow>
          (case bulkPercent offer of Some v \<Rightarrow> price p * (1 - v / 100) | None \<Rightarrow> price p)
      | BulkAmount \<Rightarrow>
          (case bulkAmount offer of Some v \<Rightarrow> max 0 (price p - v) | None \<Rightarrow> price p))"

text \<open>
  The bounds of \<^verbatim>\<open>OfferItemSchema\<close> and \<^verbatim>\<open>OfferCampaignSchema\<close> (offer.model.ts):
  \<^verbatim>\<open>offerPrice: min 0\<close>, \<^verbatim>\<open>percent: min 0, max 100\<close>, \<^verbatim>\<open>bulkPercent: min 0, max 100\<close>,
  \<^verbatim>\<open>bulkAmount: min 0\<close>.
\<close>

definition itemWithinSchema :: "'p IOfferItem \<Rightarrow> bool" where
  "itemWithinSchema item =
     ((case offerPrice item of None \<Rightarrow> True | Some v \<Rightarrow> 0 \<le> v) \<and>
      (case percent item of None \<Rightarrow> True | Some v \<Rightarrow> 0 \<le> v \<and> v \<le> 100))"

definition offerWithinSchema :: "'p IOfferCampaign \<Rightarrow> bool" where
  "offerWithinSchema offer =
     (list_all itemWithinSchema (items offer) \<and>
      (case bulkPercent offer of None \<Rightarrow> True | Some v \<Rightarrow> 0 \<le> v \<and> v \<le> 100) \<and>
      (case bulkAmount offer of None \<Rightarrow> True | Some v \<Rightarrow> 0 \<le> v))"

subsection \<open>The query and the try/catch around the calculation\<close>

datatype error =
  TypeError
  | BSONError
  | CastError
  | DbError
  | ValidationError
  | AppError string nat string
  | Error string

text \<open>
  \<^verbatim>\<open>new mongoose.Types.ObjectId(s)\<close> throws (\<^const>\<open>BSONError\<close>) on a string that is not an
  object id, and a query that compares an id field with such a string is rejected
  (\<^const>\<open>CastError\<close>); the repository's own validators spell an object id as
  \<^verbatim>\<open>/^[0-9a-fA-F]{24}$/\<close>. The \<^verbatim>\<open>_id\<close> of a document is an object id already.
\<close>

definition validObjectId :: "string \<Rightarrow> bool" where
  "validObjectId s = (length s = 24 \<and> list_all (\<lambda>c. c \<in> set ''0123456789abcdefABCDEF'') s)"

text \<open>
  The string form of the object id that a hex string is cast to:
  \<^verbatim>\<open>new mongoose.Types.ObjectId(s).toString()\<close> prints the twelve bytes in lower-case hex, so
  the cast forgets the case of the letters. The conflict check of the offer controller
  compares the submitted product ids both ways, after the cast and as the strings that were
  submitted.
\<close>

definition lowerHex :: "char \<Rightarrow> char" where
  "lowerHex c =
     (if c = CHR ''A'' then CHR ''a''
      else if c = CHR ''B'' then CHR ''b''
      else if c = CHR ''C'' then CHR ''c''
      else if c = CHR ''D'' then CHR ''d''
      else if c = CHR ''E'' then CHR ''e''
      else if c = CHR ''F'' then CHR ''f''
      else c)"

definition objectIdString :: "string \<Rightarrow> oid" where
  "objectIdString s = map lowerHex s"

text \<open>JavaScript truthiness of an optional string: \<^verbatim>\<open>undefined\<close>, \<^verbatim>\<open>null\<close> and \<^verbatim>\<open>''\<close> are falsy.\<close>

definition truthyStr :: "string option \<Rightarrow> bool" where
  "truthyStr v = (case v of None \<Rightarrow> False | Some s \<Rightarrow> s \<noteq> [])"

text \<open>
  \<^verbatim>\<open>IBranch\<close>; \<^verbatim>\<open>location.coordinates\<close> is \<^verbatim>\<open>[longitude, latitude]\<close>. \<^verbatim>\<open>b_city\<close> is the
  \<^verbatim>\<open>city\<close> property that \<^verbatim>\<open>resolveRelevantOffers\<close> reads from a branch document.
\<close>

record IBranch =
  b_id :: oid
  b_name :: string
  b_city :: "string option"
  location :: "(real \<times> real) option"
  b_isActive :: bool

text \<open>
  The collections a request reads. \<^verbatim>\<open>reachable\<close> is false when the store rejects queries
  (connection lost, timeout): then \<^verbatim>\<open>find\<close> rejects its promise.
\<close>

record database =
  offerCampaigns :: "storedOffer list"
  productDocs :: "IProduct list"
  branchDocs :: "IBranch list"
  reachable :: bool

text \<open>\<^verbatim>\<open>populate('items.product', ...)\<close> followed by \<^verbatim>\<open>lean()\<close>.\<close>

definition populateProduct :: "IProduct list \<Rightarrow> oid \<Rightarrow> IProduct option" where
  "populateProduct catalog ref = find (\<lambda>p. p_id p = ref) catalog"

definition populateItem :: "IProduct list \<Rightarrow> oid IOfferItem \<Rightarrow> IProduct option IOfferItem" where
  "populateItem catalog item =
     \<lparr> product = populateProduct catalog (product item),
       offerPrice = offerPrice item, percent = percent item \<rparr>"

definition populateOffer :: "IProduct list \<Rightarrow> storedOffer \<Rightarrow> populatedOffer" where
  "populateOffer catalog c =
     \<lparr> c_id = c_id c, title = title c, startsAt = startsAt c, endsAt = endsAt c,
       isActive = isActive c, applyMode = applyMode c, bulkPercent = bulkPercent c,
       bulkAmount = bulkAmount c, items = map (populateItem catalog) (items c),
       branches = branches c, cities = cities c, geo = geo c, categoryIds = categoryIds c,
       productIds = productIds c, priority = priority c, stackable = stackable c,
       branch = branch c, relevanceScore = relevanceScore c \<rparr>"

text \<open>
  \<^verbatim>\<open>isActive: true\<close> with the two date clauses; \<^verbatim>\<open>{ startsAt: null }\<close> matches an absent or
  null date.
\<close>

definition temporallyActive :: "time \<Rightarrow> 'p IOfferCampaign \<Rightarrow> bool" where
  "temporallyActive now c =
     (isActive c \<and>
      (case startsAt c of None \<Rightarrow> True | Some s \<Rightarrow> s \<le> now) \<and>
      (case endsAt c of None \<Rightarrow> True | Some e \<Rightarrow> now \<le> e))"

text \<open>\<^verbatim>\<open>{ $or: [{ branches: id }, { branch: id }] }\<close>\<close>

definition branchCondition :: "oid \<Rightarrow> 'p IOfferCampaign \<Rightarrow> bool" where
  "branchCondition b c = (b \<in> set (branches c) \<or> branch c = Some b)"

text \<open>The "global offers" clause: no branches, no cities, no \<^verbatim>\<open>geo\<close>, \<^verbatim>\<open>branch: null\<close>.\<close>

definition globalCondition :: "'p IOfferCampaign \<Rightarrow> bool" where
  "globalCondition c = (branches c = [] \<and> cities c = [] \<and> geo c = None \<and> branch c = None)"

definition serviceLocationConditions :: "oid option \<Rightarrow> (storedOffer \<Rightarrow> bool) list" where
  "serviceLocationConditions branchId =
     (if truthyStr branchId then [branchCondition (the branchId)] else []) @ [globalCondition]"

text \<open>
  The filter passed to \<^verbatim>\<open>OfferCampaign.find\<close> by the service: \<^verbatim>\<open>offerQuery\<close> and the
  coverage \<^verbatim>\<open>$or\<close>. The \<^verbatim>\<open>userLocation\<close> argument does not occur in it.
\<close>

definition offerQuery :: "time \<Rightarrow> oid option \<Rightarrow> oid list \<Rightarrow> storedOffer \<Rightarrow> bool" where
  "offerQuery now branchId ids c =
     (temporallyActive now c \<and>
      list_ex (\<lambda>cond. cond c) (serviceLocationConditions branchId) \<and>
      (list_ex (\<lambda>item. product item \<in> set ids) (items c) \<or>
       list_ex (\<lambda>x. x \<in> set ids) (productIds c) \<or>
       categoryIds c \<noteq> []))"

text \<open>An element of the \<^verbatim>\<open>products\<close> argument: a product object or a product id.\<close>

datatype productInput = ProductObject IProduct | ProductIdString oid

definition inputId :: "productInput \<Rightarrow> oid" where
  "inputId x = (case x of ProductObject p \<Rightarrow> p_id p | ProductIdString s \<Rightarrow> s)"

definition isIdString :: "productInput \<Rightarrow> bool" where
  "isIdString x = (case x of ProductObject p \<Rightarrow> False | ProductIdString s \<Rightarrow> True)"

definition convertibleId :: "productInput \<Rightarrow> bool" where
  "convertibleId x = (case x of ProductObject p \<Rightarrow> True | ProductIdString s \<Rightarrow> validObjectId s)"

text \<open>
  \<^verbatim>\<open>fullProducts.map(...)\<close>: a string among \<^verbatim>\<open>fullProducts\<close> has neither \<^verbatim>\<open>_id\<close> nor \<^verbatim>\<open>id\<close>, so
  \<^verbatim>\<open>(product._id || product.id).toString()\<close> raises a TypeError.
\<close>

fun priceAll :: "populatedOffer list \<Rightarrow> productInput list \<Rightarrow> error + IProductWithOffer list" where
  "priceAll offers [] = Inr []"
| "priceAll offers (ProductIdString s # rest) = Inl TypeError"
| "priceAll offers (ProductObject p # rest) =
     (case priceAll offers rest of
        Inl e \<Rightarrow> Inl e
      | Inr priced \<Rightarrow> Inr (priceProduct offers p # priced))"

text \<open>The \<^verbatim>\<open>try\<close> block of \<^verbatim>\<open>calculateEffectivePrices\<close>.\<close>

definition tryCalculate ::
  "database \<Rightarrow> time \<Rightarrow> productInput list \<Rightarrow> oid option \<Rightarrow> (real \<times> real) option
     \<Rightarrow> error + IProductWithOffer list" where
  "tryCalculate db now products branchId userLocation =
     (let ids = map inputId products in
      if truthyStr branchId \<and> \<not> validObjectId (the branchId) then Inl BSONError
      else if \<not> list_all convertibleId products then Inl BSONError
      else if \<not> reachable db then Inl DbError
      else
        (let offers = map (populateOffer (productDocs db))
                        (filter (offerQuery now branchId ids) (offerCampaigns db));
             fullProducts =
               (if products \<noteq> [] \<and> isIdString (hd products)
                then map ProductObject (filter (\<lambda>p. p_id p \<in> set ids) (productDocs db))
                else products)
         in priceAll offers fullProducts))"

text \<open>The \<^verbatim>\<open>catch\<close> block: one entry per element of the raw \<^verbatim>\<open>products\<close> argument.\<close>

definition fallbackProduct :: "productInput \<Rightarrow> IProductWithOffer" where
  "fallbackProduct x =
     (case x of
        ProductObject p \<Rightarrow>
          \<lparr> w_id = Some (p_id p), originalPrice = Some (price p),
            effectivePrice = Some (price p), hasOffer = False, offerDiscount = None,
            offerPercent = None, applicableOffers = None \<rparr>
      | ProductIdString s \<Rightarrow>
          \<lparr> w_id = None, originalPrice = None, effectivePrice = None, hasOffer = False,
            offerDiscount = None, offerPercent = None, applicableOffers = None \<rparr>)"

definition calculateEffectivePrices ::
  "database \<Rightarrow> time \<Rightarrow> productInput list \<Rightarrow> oid option \<Rightarrow> (real \<times> real) option
     \<Rightarrow> error + IProductWithOffer list" where
  "calculateEffectivePrices db now products branchId userLocation =
     (case tryCalculate db now products branchId userLocation of
        Inr priced \<Rightarrow> Inr priced
      | Inl e \<Rightarrow> Inr (map fallbackProduct products))"

section \<open>Sorting and stacking (offer.controller.ts, resolveRelevantOffers)\<close>

text \<open>
  The comparator of \<^verbatim>\<open>offers.sort\<close>: priority descending, then the relevance score
  descending when both offers carry one, then the start dates when both are set, then the
  end dates when both are set.
\<close>

definition compareOffers :: "populatedOffer \<Rightarrow> populatedOffer \<Rightarrow> int" where
  "compareOffers a b =
     (if priority a \<noteq> priority b then priority b - priority a
      else if relevanceScore a \<noteq> None \<and> relevanceScore b \<noteq> None \<and>
              relevanceScore a \<noteq> relevanceScore b
        then the (relevanceScore b) - the (relevanceScore a)
      else if startsAt a \<noteq> None \<and> startsAt b \<noteq> None
        then the (startsAt a) - the (startsAt b)
      else if endsAt a \<noteq> None \<and> endsAt b \<noteq> None
        then the (endsAt a) - the (endsAt b)
      else 0)"

text \<open>
  \<^verbatim>\<open>Array.prototype.sort\<close> is stable; it is modelled as the stable insertion sort driven by
  the comparator. The comparator orders by priority first; its later keys compare only
  offers that both carry them, so they do not form a total preorder. The verification uses
  no more of the sort than that its result is a permutation of the input in descending
  priority.
\<close>

fun insertOffer :: "populatedOffer \<Rightarrow> populatedOffer list \<Rightarrow> populatedOffer list" where
  "insertOffer x [] = [x]"
| "insertOffer x (y # ys) =
     (if compareOffers x y \<le> 0 then x # y # ys else y # insertOffer x ys)"

definition sortOffers :: "populatedOffer list \<Rightarrow> populatedOffer list" where
  "sortOffers offers = foldr insertOffer offers []"

type_synonym productOfferMap = "oid \<rightharpoonup> populatedOffer list"

text \<open>\<^verbatim>\<open>productOfferMap.get(productId) || []\<close>\<close>

definition existingOffers :: "productOfferMap \<Rightarrow> oid \<Rightarrow> populatedOffer list" where
  "existingOffers m productId = (case m productId of None \<Rightarrow> [] | Some claims \<Rightarrow> claims)"

text \<open>
  The inner loops read \<^verbatim>\<open>(item.product as any)._id\<close>; on an item whose product populated to
  null this raises a TypeError, which leaves the handler through \<^verbatim>\<open>next(error)\<close>.
\<close>

fun trackStackable ::
  "populatedOffer \<Rightarrow> IProduct option IOfferItem list \<Rightarrow> productOfferMap
     \<Rightarrow> error + productOfferMap" where
  "trackStackable offer [] m = Inr m"
| "trackStackable offer (item # rest) m =
     (case product item of
        None \<Rightarrow> Inl TypeError
      | Some pr \<Rightarrow>
          trackStackable offer rest (m(p_id pr \<mapsto> existingOffers m (p_id pr) @ [offer])))"

fun canApply ::
  "populatedOffer \<Rightarrow> IProduct option IOfferItem list \<Rightarrow> productOfferMap \<Rightarrow> error + bool" where
  "canApply offer [] m = Inr True"
| "canApply offer (item # rest) m =
     (case product item of
        None \<Rightarrow> Inl TypeError
      | Some pr \<Rightarrow>
          if list_ex (\<lambda>existingOffer. \<not> stackable existingOffer \<and>
                        priority existingOffer \<ge> priority offer)
               (existingOffers m (p_id pr))
          then Inr False
          else canApply offer rest m)"

fun replaceClaims ::
  "populatedOffer \<Rightarrow> IProduct option IOfferItem list \<Rightarrow> productOfferMap
     \<Rightarrow> error + productOfferMap" where
  "replaceClaims offer [] m = Inr m"
| "replaceClaims offer (item # rest) m =
     (case product item of
        None \<Rightarrow> Inl TypeError
      | Some pr \<Rightarrow> replaceClaims offer rest (m(p_id pr \<mapsto> [offer])))"

record stackingState =
  appliedOffers :: "populatedOffer list"
  claimsOf :: productOfferMap

text \<open>One iteration of \<^verbatim>\<open>for (const offer of offers)\<close>.\<close>

definition stackingStep :: "stackingState \<Rightarrow> populatedOffer \<Rightarrow> error + stackingState" where
  "stackingStep st offer =
     (if stackable offer then
        (case trackStackable offer (items offer) (claimsOf st) of
           Inl e \<Rightarrow> Inl e
         | Inr m \<Rightarrow> Inr \<lparr> appliedOffers = appliedOffers st @ [offer], claimsOf = m \<rparr>)
      else
        (case canApply offer (items offer) (claimsOf st) of
           Inl e \<Rightarrow> Inl e
         | Inr False \<Rightarrow> Inr st
         | Inr True \<Rightarrow>
             (case replaceClaims offer (items offer) (claimsOf st) of
                Inl e \<Rightarrow> Inl e
              | Inr m \<Rightarrow> Inr \<lparr> appliedOffers = appliedOffers st @ [offer], claimsOf = m \<rparr>)))"

fun stackingLoop :: "populatedOffer list \<Rightarrow> stackingState \<Rightarrow> error + stackingState" where
  "stackingLoop [] st = Inr st"
| "stackingLoop (offer # rest) st =
     (case stackingStep st offer of
        Inl e \<Rightarrow> Inl e
      | Inr st' \<Rightarrow> stackingLoop rest st')"

text \<open>
  The sort followed by the stacking loop; the result is \<^verbatim>\<open>appliedOffers\<close>.
\<close>

definition applyStacking :: "populatedOffer list \<Rightarrow> error + populatedOffer list" where
  "applyStacking offers =
     (case stackingLoop (sortOffers offers) \<lparr> appliedOffers = [], claimsOf = Map.empty \<rparr> of
        Inl e \<Rightarrow> Inl e
      | Inr st \<Rightarrow> Inr (appliedOffers st))"

text \<open>\<^verbatim>\<open>appliedOffers.map(({ relevanceScore, ...offer }) => offer)\<close>\<close>

definition finalOffers :: "populatedOffer list \<Rightarrow> populatedOffer list" where
  "finalOffers applied = map (\<lambda>offer. offer \<lparr> relevanceScore := None \<rparr>) applied"

text \<open>
  The product ids under which the stacking loop enters an offer in \<^verbatim>\<open>productOfferMap\<close>:
  those of its populated items (\<^verbatim>\<open>for (const item of offer.items)\<close>). The loop reads
  neither \<^verbatim>\<open>productIds\<close> nor \<^verbatim>\<open>categoryIds\<close>: a product that an offer covers only through
  one of these (\<^const>\<open>appliesToProduct\<close>) is not among them.
\<close>

definition itemProducts :: "populatedOffer \<Rightarrow> oid set" where
  "itemProducts offer =
     set (concat (map (\<lambda>item. case product item of None \<Rightarrow> [] | Some pr \<Rightarrow> [p_id pr])
                    (items offer)))"

text \<open>
  No two non-stackable offers at different positions of the list have an item on a common
  product.
\<close>

definition exclusive :: "populatedOffer list \<Rightarrow> bool" where
  "exclusive applied =
     (\<forall>j < length applied. \<forall>i < j.
        \<not> stackable (applied ! i) \<and> \<not> stackable (applied ! j) \<longrightarrow>
        itemProducts (applied ! i) \<inter> itemProducts (applied ! j) = {})"

text \<open>The invariant of the stacking loop when offers arrive in descending priority.\<close>

definition stackingInv :: "stackingState \<Rightarrow> bool" where
  "stackingInv st =
     ((\<forall>a \<in> set (appliedOffers st). \<not> stackable a \<longrightarrow>
         (\<forall>p \<in> itemProducts a. a \<in> set (existingOffers (claimsOf st) p))) \<and>
      (\<forall>p. \<forall>e \<in> set (existingOffers (claimsOf st) p).
         e \<in> set (appliedOffers st) \<and> p \<in> itemProducts e) \<and>
      exclusive (appliedOffers st))"

text \<open>The product ids carried by a list of populated items.\<close>

definition itemIds :: "IProduct option IOfferItem list \<Rightarrow> oid set" where
  "itemIds its = {p. \<exists>item \<in> set its. \<exists>pr. product item = Some pr \<and> p_id pr = p}"

text \<open>
  \<^verbatim>\<open>hasBlockingOffer\<close> for one product: a claiming offer that is non-stackable and of equal or
  higher priority.
\<close>

definition blocked :: "populatedOffer \<Rightarrow> productOfferMap \<Rightarrow> oid \<Rightarrow> bool" where
  "blocked offer m p =
     (\<exists>e \<in> set (existingOffers m p). \<not> stackable e \<and> priority offer \<le> priority e)"

section \<open>Targeting filter (offer.controller.ts, resolveRelevantOffers)\<close>

text \<open>\<^verbatim>\<open>Math.atan2(y, x)\<close>.\<close>

definition atan2 :: "real \<Rightarrow> real \<Rightarrow> real" where
  "atan2 y x =
     (if 0 < x then arctan (y / x)
      else if x < 0 \<and> 0 \<le> y then arctan (y / x) + pi
      else if x < 0 then arctan (y / x) - pi
      else if 0 < y then pi / 2
      else if y < 0 then - (pi / 2)
      else 0)"

text \<open>
  The haversine formula shared by \<^verbatim>\<open>OfferController.calculateDistance\<close> (earth radius
  6371000, meters) and \<^verbatim>\<open>GeolocationService.calculateDistance\<close> (earth radius 6371,
  kilometers).
\<close>

definition haversine :: "real \<Rightarrow> real \<Rightarrow> real \<Rightarrow> real \<Rightarrow> real \<Rightarrow> real" where
  "haversine R lat1 lon1 lat2 lon2 =
     (let dLat = (lat2 - lat1) * pi / 180;
          dLon = (lon2 - lon1) * pi / 180;
          a = sin (dLat / 2) * sin (dLat / 2) +
              cos (lat1 * pi / 180) * cos (lat2 * pi / 180) *
              sin (dLon / 2) * sin (dLon / 2);
          c = 2 * atan2 (sqrt a) (sqrt (1 - a))
      in R * c)"

definition calculateDistanceMeters :: "real \<Rightarrow> real \<Rightarrow> real \<Rightarrow> real \<Rightarrow> real" where
  "calculateDistanceMeters = haversine 6371000"

definition calculateDistanceKm :: "real \<Rightarrow> real \<Rightarrow> real \<Rightarrow> real \<Rightarrow> real" where
  "calculateDistanceKm = haversine 6371"

text \<open>The query parameters of the request that locate the requester.\<close>

record offerRequest =
  q_lat :: "real option"
  q_lng :: "real option"
  q_cityName :: "string option"
  q_branchId :: "oid option"

text \<open>\<^verbatim>\<open>userBranchId\<close>, \<^verbatim>\<open>userCity\<close> and \<^verbatim>\<open>userCoordinates\<close> (\<^verbatim>\<open>[lng, lat]\<close>).\<close>

record locationContext =
  userBranchId :: "oid option"
  userCity :: "string option"
  userCoordinates :: "(real \<times> real) option"

text \<open>
  The \<^verbatim>\<open>branches.forEach\<close> that keeps the branch at the smallest planar distance;
  \<^verbatim>\<open>minDistance\<close> starts at \<^verbatim>\<open>Infinity\<close> (\<^const>\<open>None\<close>).
\<close>

definition nearerBranch ::
  "real \<Rightarrow> real \<Rightarrow> (IBranch \<times> real) option \<Rightarrow> IBranch \<Rightarrow> (IBranch \<times> real) option" where
  "nearerBranch lat lng best b =
     (case location b of
        None \<Rightarrow> best
      | Some (branchLng, branchLat) \<Rightarrow>
          (let distance = sqrt ((lat - branchLat)\<^sup>2 + (lng - branchLng)\<^sup>2)
           in case best of
                None \<Rightarrow> Some (b, distance)
              | Some (nearest, minDistance) \<Rightarrow>
                  if distance < minDistance then Some (b, distance) else best))"

text \<open>
  Lines 97 to 146: the location context of a request. \<^verbatim>\<open>Branch.find\<close> runs when the
  coordinates are given without a branch id, \<^verbatim>\<open>Branch.findById\<close> when a branch id is known
  without a city.
\<close>

definition resolveContext :: "database \<Rightarrow> offerRequest \<Rightarrow> error + locationContext" where
  "resolveContext db req =
     (let ctx0 = \<lparr> userBranchId = q_branchId req, userCity = q_cityName req,
                   userCoordinates = None \<rparr>;
          located =
            (case (q_lat req, q_lng req) of
               (Some lat, Some lng) \<Rightarrow>
                 (let ctx1 = ctx0 \<lparr> userCoordinates := Some (lng, lat) \<rparr>
                  in if truthyStr (userBranchId ctx0) then Inr ctx1
                     else if \<not> reachable db then Inl DbError
                     else
                       (case foldl (nearerBranch lat lng) None
                               (filter b_isActive (branchDocs db)) of
                          None \<Rightarrow> Inr ctx1
                        | Some (nearest, d) \<Rightarrow>
                            Inr (ctx1 \<lparr> userBranchId := Some (b_id nearest),
                                        userCity := (if truthyStr (userCity ctx0)
                                                     then userCity ctx0
                                                     else b_city nearest) \<rparr>)))
             | _ \<Rightarrow> Inr ctx0)
      in case located of
           Inl e \<Rightarrow> Inl e
         | Inr ctx \<Rightarrow>
             if truthyStr (userBranchId ctx) \<and> \<not> truthyStr (userCity ctx) then
               (if \<not> validObjectId (the (userBranchId ctx)) then Inl CastError
                else if \<not> reachable db then Inl DbError
                else
                  (case find (\<lambda>b. b_id b = the (userBranchId ctx)) (branchDocs db) of
                     None \<Rightarrow> Inr ctx
                   | Some b \<Rightarrow>
                       Inr (ctx \<lparr> userCity := b_city b,
                                  userCoordinates :=
                                    (if userCoordinates ctx = None then location b
                                     else userCoordinates ctx) \<rparr>)))
             else Inr ctx)"

text \<open>\<^verbatim>\<open>{ cities: userCity }\<close>\<close>

definition cityCondition :: "string \<Rightarrow> 'p IOfferCampaign \<Rightarrow> bool" where
  "cityCondition city c = (city \<in> set (cities c))"

definition locationConditions :: "locationContext \<Rightarrow> (storedOffer \<Rightarrow> bool) list" where
  "locationConditions ctx =
     (if truthyStr (userBranchId ctx) then [branchCondition (the (userBranchId ctx))] else []) @
     (if truthyStr (userCity ctx) then [cityCondition (the (userCity ctx))] else []) @
     [globalCondition]"

text \<open>
  \<^verbatim>\<open>baseQuery\<close> as it stands when \<^verbatim>\<open>find\<close> runs: the date clauses and, pushed onto the same
  \<^verbatim>\<open>$and\<close> array, the disjunction of the location conditions.
\<close>

definition baseQuery :: "time \<Rightarrow> locationContext \<Rightarrow> storedOffer \<Rightarrow> bool" where
  "baseQuery now ctx c =
     (temporallyActive now c \<and> list_ex (\<lambda>cond. cond c) (locationConditions ctx))"

text \<open>
  \<^verbatim>\<open>includeOffer\<close> for a campaign with a \<^verbatim>\<open>geo\<close> field. The polygon test is a store query
  (\<^verbatim>\<open>$geoWithin\<close>); its answer is the parameter \<^verbatim>\<open>geoWithin\<close>.
\<close>

definition includeOffer ::
  "(storedOffer \<Rightarrow> real \<times> real \<Rightarrow> bool) \<Rightarrow> real \<times> real \<Rightarrow> storedOffer \<Rightarrow> bool" where
  "includeOffer geoWithin coords offer =
     (case geo offer of
        None \<Rightarrow> False
      | Some (GeoPoint offerLng offerLat radiusMeters) \<Rightarrow>
          truthyNum radiusMeters \<and>
          calculateDistanceMeters (snd coords) (fst coords) offerLat offerLng \<le> the radiusMeters
      | Some (GeoPolygon rings) \<Rightarrow> geoWithin offer coords)"

text \<open>
  One iteration of \<^verbatim>\<open>for (const offer of geoOffers)\<close>: an included offer that is not yet in
  \<^verbatim>\<open>offers\<close> is fetched by id, populated and pushed.
\<close>

definition geoStep ::
  "database \<Rightarrow> (storedOffer \<Rightarrow> real \<times> real \<Rightarrow> bool) \<Rightarrow> real \<times> real
     \<Rightarrow> populatedOffer list \<Rightarrow> storedOffer \<Rightarrow> populatedOffer list" where
  "geoStep db geoWithin coords offers offer =
     (if includeOffer geoWithin coords offer \<and> find (\<lambda>known. c_id known = c_id offer) offers = None
      then (case find (\<lambda>c. c_id c = c_id offer) (offerCampaigns db) of
              None \<Rightarrow> offers
            | Some found \<Rightarrow> offers @ [populateOffer (productDocs db) found])
      else offers)"

text \<open>
  Lines 148 to 269: the main query, then the geo pass over
  \<^verbatim>\<open>OfferCampaign.find({ ...baseQuery, 'geo.type': { $exists: true } })\<close>. The spread copies
  \<^verbatim>\<open>baseQuery\<close> with its \<^verbatim>\<open>$and\<close> array, to which the location conditions were pushed.
\<close>

definition selectOffers ::
  "database \<Rightarrow> (storedOffer \<Rightarrow> real \<times> real \<Rightarrow> bool) \<Rightarrow> time \<Rightarrow> locationContext
     \<Rightarrow> error + populatedOffer list" where
  "selectOffers db geoWithin now ctx =
     (if truthyStr (userBranchId ctx) \<and> \<not> validObjectId (the (userBranchId ctx))
      then Inl CastError
      else if \<not> reachable db then Inl DbError
      else
        (let offers = map (populateOffer (productDocs db))
                        (filter (baseQuery now ctx) (offerCampaigns db))
         in case userCoordinates ctx of
              None \<Rightarrow> Inr offers
            | Some coords \<Rightarrow>
                (let geoOffers = filter (\<lambda>c. baseQuery now ctx c \<and> geo c \<noteq> None)
                                   (offerCampaigns db)
                 in Inr (foldl (geoStep db geoWithin coords) offers geoOffers))))"

text \<open>The context of the request, then the selection.\<close>

definition targetedOffers ::
  "database \<Rightarrow> (storedOffer \<Rightarrow> real \<times> real \<Rightarrow> bool) \<Rightarrow> time \<Rightarrow> offerRequest
     \<Rightarrow> error + populatedOffer list" where
  "targetedOffers db geoWithin now req =
     (case resolveContext db req of
        Inl e \<Rightarrow> Inl e
      | Inr ctx \<Rightarrow> selectOffers db geoWithin now ctx)"

text \<open>
  The admission test as the specification words it: temporally active, and the branch set
  (or legacy branch) contains the context's branch, or the city set contains the context's
  city, or the geofence contains the context's coordinates, or the campaign is unrestricted.
\<close>

definition specGeofenceAdmits ::
  "(storedOffer \<Rightarrow> real \<times> real \<Rightarrow> bool) \<Rightarrow> real \<times> real \<Rightarrow> storedOffer \<Rightarrow> bool" where
  "specGeofenceAdmits geoWithin coords c =
     (case geo c of
        None \<Rightarrow> False
      | Some (GeoPoint lng lat radius) \<Rightarrow>
          (case radius of
             None \<Rightarrow> False
           | Some r \<Rightarrow> calculateDistanceMeters (snd coords) (fst coords) lat lng \<le> r)
      | Some (GeoPolygon rings) \<Rightarrow> geoWithin c coords)"

definition specAdmits ::
  "(storedOffer \<Rightarrow> real \<times> real \<Rightarrow> bool) \<Rightarrow> time \<Rightarrow> locationContext \<Rightarrow> storedOffer \<Rightarrow> bool" where
  "specAdmits geoWithin now ctx c =
     (temporallyActive now c \<and>
      ((case userBranchId ctx of None \<Rightarrow> False | Some b \<Rightarrow> branchCondition b c) \<or>
       (case userCity ctx of None \<Rightarrow> False | Some city \<Rightarrow> cityCondition city c) \<or>
       (case userCoordinates ctx of
          None \<Rightarrow> False
        | Some coords \<Rightarrow> specGeofenceAdmits geoWithin coords c) \<or>
       globalCondition c))"

section \<open>Product conflicts on create and update (offer.controller.ts)\<close>

record conflictDetail =
  offerTitle :: string
  conflictProducts :: "string list"

text \<open>
  The filter of \<^verbatim>\<open>checkProductConflicts\<close>: active, one of the items refers to one of the
  submitted products, inside its date range, and, when a target branch is given, global
  (\<^verbatim>\<open>branch: null\<close>) or of that branch; the offer being updated is excluded. The query
  compares object ids: each submitted string goes through \<^verbatim>\<open>new mongoose.Types.ObjectId\<close>.
  It reads the \<^verbatim>\<open>items\<close> of a campaign and neither its \<^verbatim>\<open>productIds\<close> nor its
  \<^verbatim>\<open>categoryIds\<close>.
\<close>

definition conflictQuery ::
  "time \<Rightarrow> oid list \<Rightarrow> oid option \<Rightarrow> oid option \<Rightarrow> storedOffer \<Rightarrow> bool" where
  "conflictQuery now ids excludeOfferId targetBranch c =
     (isActive c \<and>
      list_ex (\<lambda>item. product item \<in> set (map objectIdString ids)) (items c) \<and>
      (case startsAt c of None \<Rightarrow> True | Some s \<Rightarrow> s \<le> now) \<and>
      (case endsAt c of None \<Rightarrow> True | Some e \<Rightarrow> now \<le> e) \<and>
      (truthyStr targetBranch \<longrightarrow>
         branch c = None \<or> branch c = Some (objectIdString (the targetBranch))) \<and>
      (truthyStr excludeOfferId \<longrightarrow> c_id c \<noteq> objectIdString (the excludeOfferId)))"

text \<open>
  \<^verbatim>\<open>offer.items.filter(item => productIds.includes(item.product._id.toString()))
  .map(item => item.product.title)\<close>; an item whose product populated to null raises a
  TypeError. Unlike the query, this filter compares strings: the string form of the stored
  id with the ids as they were submitted.
\<close>

fun conflictingProducts ::
  "oid list \<Rightarrow> IProduct option IOfferItem list \<Rightarrow> error + string list" where
  "conflictingProducts ids [] = Inr []"
| "conflictingProducts ids (item # rest) =
     (case product item of
        None \<Rightarrow> Inl TypeError
      | Some pr \<Rightarrow>
          (case conflictingProducts ids rest of
             Inl e \<Rightarrow> Inl e
           | Inr titles \<Rightarrow> Inr (if p_id pr \<in> set ids then p_title pr # titles else titles)))"

fun conflictDetails :: "oid list \<Rightarrow> populatedOffer list \<Rightarrow> error + conflictDetail list" where
  "conflictDetails ids [] = Inr []"
| "conflictDetails ids (offer # rest) =
     (case conflictingProducts ids (items offer) of
        Inl e \<Rightarrow> Inl e
      | Inr titles \<Rightarrow>
          (case conflictDetails ids rest of
             Inl e \<Rightarrow> Inl e
           | Inr details \<Rightarrow>
               Inr (\<lparr> offerTitle = title offer, conflictProducts = titles \<rparr> # details)))"

definition checkProductConflicts ::
  "database \<Rightarrow> time \<Rightarrow> oid list \<Rightarrow> oid option \<Rightarrow> oid option
     \<Rightarrow> error + conflictDetail list option" where
  "checkProductConflicts db now ids excludeOfferId targetBranch =
     (if \<not> list_all validObjectId ids then Inl BSONError
      else if truthyStr targetBranch \<and> \<not> validObjectId (the targetBranch) then Inl BSONError
      else if truthyStr excludeOfferId \<and> \<not> validObjectId (the excludeOfferId)
        then Inl BSONError
      else if \<not> reachable db then Inl DbError
      else
        (let conflictingOffers =
               map (populateOffer (productDocs db))
                 (filter (conflictQuery now ids excludeOfferId targetBranch)
                    (offerCampaigns db))
         in if conflictingOffers \<noteq> [] then
              (case conflictDetails ids conflictingOffers of
                 Inl e \<Rightarrow> Inl e
               | Inr details \<Rightarrow> Inr (Some details))
            else Inr None))"

text \<open>\<^verbatim>\<open>Array.prototype.join\<close>.\<close>

fun joinWith :: "string \<Rightarrow> string list \<Rightarrow> string" where
  "joinWith sep [] = []"
| "joinWith sep [x] = x"
| "joinWith sep (x # y # ys) = x @ sep @ joinWith sep (y # ys)"

text \<open>The message of the \<^verbatim>\<open>PRODUCT_CONFLICT\<close> error.\<close>

definition conflictMessage :: "conflictDetail list \<Rightarrow> string" where
  "conflictMessage conflicts =
     ''Product conflict detected. '' @
     joinWith ''; ''
       (map (\<lambda>conflict. [CHR 0x22] @ offerTitle conflict @ [CHR 0x22] @ '' already includes: '' @
                         joinWith '', '' (conflictProducts conflict))
          conflicts) @
     ''. Please remove these products from existing offers first.''"

definition productConflict :: "conflictDetail list \<Rightarrow> error" where
  "productConflict conflicts = AppError (conflictMessage conflicts) 400 ''PRODUCT_CONFLICT''"

datatype userRole = AdminRole | BranchRole

text \<open>\<^verbatim>\<open>req.user\<close>\<close>

record requestUser =
  u_id :: oid
  role :: userRole
  u_branchId :: "oid option"

text \<open>\<^verbatim>\<open>CreateOfferDto\<close>; an absent \<^verbatim>\<open>items\<close> is the empty list.\<close>

record createOfferDto =
  dto_title :: string
  dto_startsAt :: "time option"
  dto_endsAt :: "time option"
  dto_applyMode :: applyMode
  dto_bulkPercent :: "real option"
  dto_bulkAmount :: "real option"
  dto_branch :: "oid option"
  dto_items :: "oid IOfferItem list"

text \<open>\<^verbatim>\<open>req.user.role === 'branch' ? req.user.branchId : (branch || null)\<close>\<close>

definition createTargetBranch :: "requestUser \<Rightarrow> createOfferDto \<Rightarrow> oid option" where
  "createTargetBranch user dto =
     (if role user = BranchRole then u_branchId user
      else if truthyStr (dto_branch dto) then dto_branch dto else None)"

text \<open>
  What \<^verbatim>\<open>offer.save()\<close> checks of the schema: the required title and the numeric bounds;
  the save is rejected when the store is not reachable.
\<close>

definition saveOffer :: "database \<Rightarrow> storedOffer \<Rightarrow> error + database" where
  "saveOffer db offer =
     (if title offer = [] \<or> \<not> offerWithinSchema offer then Inl ValidationError
      else if \<not> reachable db then Inl DbError
      else Inr (db \<lparr> offerCampaigns :=
                       filter (\<lambda>c. c_id c \<noteq> c_id offer) (offerCampaigns db) @ [offer] \<rparr>))"

text \<open>
  \<^verbatim>\<open>items.map(item => ({ product: new mongoose.Types.ObjectId(item.product), offerPrice:
  item.offerPrice, percent: item.percent }))\<close>
\<close>

definition castItem :: "oid IOfferItem \<Rightarrow> oid IOfferItem" where
  "castItem item =
     \<lparr> product = objectIdString (product item), offerPrice = offerPrice item,
       percent = percent item \<rparr>"

text \<open>
  \<^verbatim>\<open>createOffer\<close> up to and including \<^verbatim>\<open>offer.save()\<close>; \<^verbatim>\<open>newId\<close> is the id given to the new
  document. A result \<^const>\<open>Inl\<close> is the error handed to \<^verbatim>\<open>next(error)\<close>: nothing was saved.
  \<^verbatim>\<open>Product.find({ _id: { $in: productIds } })\<close> casts the submitted strings to object ids;
  the number of products found is compared with the number of submitted ids.
\<close>

definition createOffer ::
  "database \<Rightarrow> time \<Rightarrow> requestUser \<Rightarrow> createOfferDto \<Rightarrow> oid \<Rightarrow> error + database" where
  "createOffer db now user dto newId =
     (let ids = map product (dto_items dto);
          checked =
            (if dto_items dto \<noteq> [] then
               (if \<not> list_all validObjectId ids then Inl CastError
                else if \<not> reachable db then Inl DbError
                else if length (filter (\<lambda>p. p_id p \<in> set (map objectIdString ids))
                                  (productDocs db)) \<noteq> length ids
                  then Inl (AppError ''One or more products not found'' 404
                              ''PRODUCTS_NOT_FOUND'')
                else
                  (case checkProductConflicts db now ids None (createTargetBranch user dto) of
                     Inl e \<Rightarrow> Inl e
                   | Inr (Some conflicts) \<Rightarrow> Inl (productConflict conflicts)
                   | Inr None \<Rightarrow> Inr ()))
             else Inr ())
      in case checked of
           Inl e \<Rightarrow> Inl e
         | Inr u \<Rightarrow>
             if dto_applyMode dto = BulkPercent \<and> \<not> truthyNum (dto_bulkPercent dto) then
               Inl (AppError ''Bulk percent is required for bulkPercent mode'' 400
                      ''BULK_PERCENT_REQUIRED'')
             else if dto_applyMode dto = BulkAmount \<and> \<not> truthyNum (dto_bulkAmount dto) then
               Inl (AppError ''Bulk amount is required for bulkAmount mode'' 400
                      ''BULK_AMOUNT_REQUIRED'')
             else if role user \<noteq> BranchRole \<and> truthyStr (dto_branch dto) \<and>
                     \<not> validObjectId (the (dto_branch dto)) then Inl BSONError
             else
               saveOffer db
                 \<lparr> c_id = newId, title = dto_title dto,
                   startsAt = dto_startsAt dto, endsAt = dto_endsAt dto, isActive = True,
                   applyMode = dto_applyMode dto,
                   bulkPercent =
                     (if dto_applyMode dto = BulkPercent then dto_bulkPercent dto else None),
                   bulkAmount =
                     (if dto_applyMode dto = BulkAmount then dto_bulkAmount dto else None),
                   items = map castItem (dto_items dto), branches = [], cities = [],
                   geo = None, categoryIds = [], productIds = [], priority = 0,
                   stackable = False,
                   branch =
                     (if role user = BranchRole then map_option objectIdString (u_branchId user)
                      else if truthyStr (dto_branch dto)
                        then Some (objectIdString (the (dto_branch dto)))
                      else None),
                   relevanceScore = None \<rparr>)"

text \<open>
  \<^verbatim>\<open>UpdateOfferDto\<close>. A field is \<^const>\<open>None\<close> when it is \<^verbatim>\<open>undefined\<close> in the body; the dates
  and the branch can also be sent empty (\<^term>\<open>Some None\<close>).
\<close>

record updateOfferDto =
  up_title :: "string option"
  up_startsAt :: "time option option"
  up_endsAt :: "time option option"
  up_isActive :: "bool option"
  up_applyMode :: "applyMode option"
  up_bulkPercent :: "real option"
  up_bulkAmount :: "real option"
  up_branch :: "oid option option"
  up_items :: "oid IOfferItem list option"

text \<open>
  The target branch of an update: the submitted branch for an admin who sends one, the
  user's branch for a branch operator, else the offer's own branch.
\<close>

definition updateTargetBranch ::
  "requestUser \<Rightarrow> updateOfferDto \<Rightarrow> storedOffer \<Rightarrow> oid option" where
  "updateTargetBranch user upd offer =
     (if role user = AdminRole \<and> up_branch upd \<noteq> None then the (up_branch upd)
      else if role user = BranchRole then u_branchId user
      else branch offer)"

text \<open>The field assignments of \<^verbatim>\<open>updateOffer\<close> that precede the conflict check.\<close>

definition applyUpdate :: "requestUser \<Rightarrow> updateOfferDto \<Rightarrow> storedOffer \<Rightarrow> storedOffer" where
  "applyUpdate user upd offer =
     (let o1 = (case up_title upd of None \<Rightarrow> offer | Some t \<Rightarrow> offer \<lparr> title := t \<rparr>);
          o2 = (case up_startsAt upd of None \<Rightarrow> o1 | Some s \<Rightarrow> o1 \<lparr> startsAt := s \<rparr>);
          o3 = (case up_endsAt upd of None \<Rightarrow> o2 | Some e \<Rightarrow> o2 \<lparr> endsAt := e \<rparr>);
          o4 = (case up_isActive upd of None \<Rightarrow> o3 | Some a \<Rightarrow> o3 \<lparr> isActive := a \<rparr>);
          o5 = (if role user = AdminRole then
                  (case up_branch upd of
                     None \<Rightarrow> o4
                   | Some b \<Rightarrow>
                       o4 \<lparr> branch := (if truthyStr b then Some (objectIdString (the b))
                                       else None) \<rparr>)
                else o4)
      in case up_applyMode upd of
           None \<Rightarrow> o5
         | Some BulkPercent \<Rightarrow>
             o5 \<lparr> applyMode := BulkPercent,
                  bulkPercent := (if truthyNum (up_bulkPercent upd) then up_bulkPercent upd
                                  else bulkPercent o5),
                  bulkAmount := None \<rparr>
         | Some BulkAmount \<Rightarrow>
             o5 \<lparr> applyMode := BulkAmount,
                  bulkAmount := (if truthyNum (up_bulkAmount upd) then up_bulkAmount upd
                                 else bulkAmount o5),
                  bulkPercent := None \<rparr>
         | Some PerItem \<Rightarrow>
             o5 \<lparr> applyMode := PerItem, bulkPercent := None, bulkAmount := None \<rparr>)"

text \<open>
  \<^verbatim>\<open>updateOffer\<close> up to and including \<^verbatim>\<open>offer.save()\<close>. \<^verbatim>\<open>findById\<close> casts the id of the
  route, and \<^verbatim>\<open>offer.branch.equals\<close> compares object ids.
\<close>

definition updateOffer ::
  "database \<Rightarrow> time \<Rightarrow> requestUser \<Rightarrow> oid \<Rightarrow> updateOfferDto \<Rightarrow> error + database" where
  "updateOffer db now user ident upd =
     (if \<not> validObjectId ident then Inl CastError
      else if \<not> reachable db then Inl DbError
      else
        (case find (\<lambda>c. c_id c = objectIdString ident) (offerCampaigns db) of
           None \<Rightarrow> Inl (AppError ''Offer campaign not found'' 404 ''NOT_FOUND'')
         | Some offer \<Rightarrow>
             if role user = BranchRole \<and> branch offer \<noteq> None \<and>
                branch offer \<noteq> map_option objectIdString (u_branchId user)
             then Inl (AppError ''Access denied'' 403 ''FORBIDDEN'')
             else if role user = AdminRole \<and> up_branch upd \<noteq> None \<and>
                     truthyStr (the (up_branch upd)) \<and>
                     \<not> validObjectId (the (the (up_branch upd))) then Inl BSONError
             else
               (let updated = applyUpdate user upd offer
                in case up_items upd of
                     None \<Rightarrow> saveOffer db updated
                   | Some newItems \<Rightarrow>
                       (case checkProductConflicts db now (map product newItems) (Some ident)
                               (updateTargetBranch user upd offer) of
                          Inl e \<Rightarrow> Inl e
                        | Inr (Some conflicts) \<Rightarrow> Inl (productConflict conflicts)
                        | Inr None \<Rightarrow>
                            if \<not> list_all validObjectId (map product newItems)
                            then Inl BSONError
                            else saveOffer db (updated \<lparr> items := map castItem newItems \<rparr>)))))"

text \<open>A submitted id that is spelled as the cast prints it: no upper-case hex digit.\<close>

definition lowerCaseId :: "string \<Rightarrow> bool" where
  "lowerCaseId s = (objectIdString s = s)"

text \<open>
  The titles of the products of a stored campaign that are among the submitted products
  (as object ids), in the order of its items.
\<close>

definition overlappingTitles :: "IProduct list \<Rightarrow> oid list \<Rightarrow> storedOffer \<Rightarrow> string list" where
  "overlappingTitles catalog ids c =
     map p_title
       (filter (\<lambda>pr. p_id pr \<in> set (map objectIdString ids))
          (concat (map (\<lambda>item. case populateProduct catalog (product item) of
                                  None \<Rightarrow> [] | Some pr \<Rightarrow> [pr])
                     (items c))))"

text \<open>Every item of the campaign refers to a product of the catalog.\<close>

definition resolvable :: "IProduct list \<Rightarrow> storedOffer \<Rightarrow> bool" where
  "resolvable catalog c =
     list_all (\<lambda>item. populateProduct catalog (product item) \<noteq> None) (items c)"

text \<open>The entry of the rejection for one conflicting campaign.\<close>

definition detailOf :: "IProduct list \<Rightarrow> oid list \<Rightarrow> storedOffer \<Rightarrow> conflictDetail" where
  "detailOf catalog ids c =
     \<lparr> offerTitle = title c, conflictProducts = overlappingTitles catalog ids c \<rparr>"

section \<open>Branch locator (branch-assignment.service.ts)\<close>

text \<open>
  The store's answer to \<^verbatim>\<open>{ isActive: true, location: { $near: { $geometry, $maxDistance } } }\<close>:
  the active branches with a location within \<^verbatim>\<open>$maxDistance\<close> meters of the point, nearest
  first. The store measures with its own spherical distance; it is the parameter
  \<^verbatim>\<open>geoDistance\<close> (meters, between two \<^verbatim>\<open>[lng, lat]\<close> points). Branches at equal distance
  keep their stored order.
\<close>

definition nearQuery ::
  "(real \<times> real \<Rightarrow> real \<times> real \<Rightarrow> real) \<Rightarrow> IBranch list \<Rightarrow> real \<times> real \<Rightarrow> real \<Rightarrow> IBranch list" where
  "nearQuery geoDistance stored point maxDistance =
     sort_key (\<lambda>b. geoDistance point (the (location b)))
       (filter (\<lambda>b. b_isActive b \<and> location b \<noteq> None \<and>
                     geoDistance point (the (location b)) \<le> maxDistance)
          stored)"

text \<open>
  \<^verbatim>\<open>findNearestBranchByCoordinates\<close>: \<^verbatim>\<open>findOne\<close> takes the first document of the query; a
  failing query is caught and gives null.
\<close>

definition findNearestBranchByCoordinates ::
  "(real \<times> real \<Rightarrow> real \<times> real \<Rightarrow> real) \<Rightarrow> database \<Rightarrow> real \<Rightarrow> real \<Rightarrow> real
     \<Rightarrow> IBranch option" where
  "findNearestBranchByCoordinates geoDistance db longitude latitude maxDistanceKm =
     (if \<not> reachable db then None
      else (case nearQuery geoDistance (branchDocs db) (longitude, latitude)
                   (maxDistanceKm * 1000) of
              [] \<Rightarrow> None
            | nearestBranch # others \<Rightarrow> Some nearestBranch))"

text \<open>
  The loop of \<^verbatim>\<open>findNearestBranchManual\<close>; the accumulator is \<^verbatim>\<open>nearestBranch\<close> with
  \<^verbatim>\<open>minDistance\<close>, \<^const>\<open>None\<close> standing for null and \<^verbatim>\<open>Infinity\<close>. A branch without a location
  makes \<^verbatim>\<open>branch.location.coordinates\<close> raise a TypeError.
\<close>

fun manualLoop ::
  "real \<Rightarrow> real \<Rightarrow> IBranch list \<Rightarrow> (IBranch \<times> real) option
     \<Rightarrow> error + (IBranch \<times> real) option" where
  "manualLoop latitude longitude [] best = Inr best"
| "manualLoop latitude longitude (b # rest) best =
     (case location b of
        None \<Rightarrow> Inl TypeError
      | Some (branchLng, branchLat) \<Rightarrow>
          (let distance = calculateDistanceKm latitude longitude branchLat branchLng
           in manualLoop latitude longitude rest
                (case best of
                   None \<Rightarrow> Some (b, distance)
                 | Some (nearestBranch, minDistance) \<Rightarrow>
                     if distance < minDistance then Some (b, distance) else best)))"

text \<open>\<^verbatim>\<open>findNearestBranchManual\<close>: any error is caught and gives null.\<close>

definition findNearestBranchManual :: "database \<Rightarrow> real \<Rightarrow> real \<Rightarrow> IBranch option" where
  "findNearestBranchManual db longitude latitude =
     (if \<not> reachable db then None
      else
        (let allBranches = filter b_isActive (branchDocs db)
         in if allBranches = [] then None
            else (case manualLoop latitude longitude allBranches None of
                    Inl e \<Rightarrow> None
                  | Inr None \<Rightarrow> None
                  | Inr (Some (nearestBranch, minDistance)) \<Rightarrow> Some nearestBranch)))"

text \<open>
  The first element of a list with the smallest key, and the hypothesis under which the two
  strategies are compared: on the active branches, the store's distance is the haversine
  distance of \<^verbatim>\<open>GeolocationService.calculateDistance\<close>, in meters.
\<close>

fun firstMin :: "('a \<Rightarrow> real) \<Rightarrow> 'a list \<Rightarrow> 'a option" where
  "firstMin f [] = None"
| "firstMin f (x # xs) =
     (case firstMin f xs of
        None \<Rightarrow> Some x
      | Some y \<Rightarrow> if f x \<le> f y then Some x else Some y)"



section \<open>Order creation (order.service.ts, createOrder)\<close>

record IShippingAddress =
  firstName :: string
  lastName :: string
  email :: "string option"
  phone :: string
  companyName :: "string option"
  address :: string
  apartment :: "string option"
  district :: string
  buildingNumber :: string
  secondaryNumber :: "string option"
  postalCode :: "string option"
  crNumber :: "string option"
  vatNumber :: "string option"
  vatRegistered :: bool

record orderLine =
  productId :: oid
  quantity :: int

datatype paymentMethod = Mada | Emkan | Cod

text \<open>\<^verbatim>\<open>CreateOrderData\<close>; \<^verbatim>\<open>clientLocation\<close> is \<^verbatim>\<open>(latitude, longitude)\<close>.\<close>

record CreateOrderData =
  customerId :: oid
  od_items :: "orderLine list"
  shippingAddress :: IShippingAddress
  od_paymentMethod :: paymentMethod
  subtotal :: real
  shipping :: real
  total :: real
  od_notes :: "string option"
  saveInfo :: bool
  customerIpAddress :: "string option"
  clientLocation :: "(real \<times> real) option"

record IOrderItem =
  oi_product :: oid
  oi_title :: string
  oi_price :: real
  oi_offerPrice :: "real option"
  oi_quantity :: int
  oi_subtotal :: real

text \<open>
  \<^verbatim>\<open>IOrder\<close>. \<^verbatim>\<open>orderNumber\<close> holds the number that the source prints behind \<^verbatim>\<open>MTC\<close>, padded
  to six digits; \<^verbatim>\<open>o_customerLocation\<close> is \<^verbatim>\<open>[longitude, latitude]\<close>.
\<close>

record IOrder =
  orderNumber :: nat
  o_customer :: oid
  o_branch :: "oid option"
  o_items :: "IOrderItem list"
  o_shippingAddress :: IShippingAddress
  o_paymentMethod :: paymentMethod
  o_subtotal :: real
  o_shipping :: real
  o_total :: real
  o_notes :: "string option"
  o_customerIpAddress :: "string option"
  o_customerLocation :: "(real \<times> real) option"

record savedAddress =
  sa_address :: IShippingAddress
  addressLabel :: string

record ICustomer =
  cust_id :: oid
  savedAddresses :: "savedAddress list"

text \<open>What order creation reads and writes.\<close>

record orderStore =
  catalogue :: database
  customerDocs :: "ICustomer list"
  orderDocs :: "IOrder list"

text \<open>
  \<^verbatim>\<open>applyOfferPricing\<close>: the fields of the returned object that \<^verbatim>\<open>createOrder\<close> reads. The
  destructuring \<^verbatim>\<open>const [productWithOffer] = ...\<close> of an empty array gives undefined, whose
  property access raises a TypeError.
\<close>

record pricedView =
  v_price :: real
  v_offerPrice :: "real option"
  v_effectivePrice :: "real option"
  v_hasOffer :: bool

definition applyOfferPricing ::
  "database \<Rightarrow> time \<Rightarrow> IProduct \<Rightarrow> oid option \<Rightarrow> (real \<times> real) option \<Rightarrow> error + pricedView" where
  "applyOfferPricing db now p branchId userLocation =
     (case calculateEffectivePrices db now [ProductObject p] branchId userLocation of
        Inl e \<Rightarrow> Inl e
      | Inr [] \<Rightarrow> Inl TypeError
      | Inr (productWithOffer # others) \<Rightarrow>
          Inr \<lparr> v_price = price p,
                v_offerPrice =
                  (if hasOffer productWithOffer then effectivePrice productWithOffer
                   else p_offerPrice p),
                v_effectivePrice = effectivePrice productWithOffer,
                v_hasOffer = hasOffer productWithOffer \<rparr>)"

text \<open>
  The loop over \<^verbatim>\<open>orderData.items\<close>; the accumulator is \<^verbatim>\<open>orderItems\<close> with
  \<^verbatim>\<open>calculatedSubtotal\<close>. The price of a line is
  \<^verbatim>\<open>productWithOffer.offerPrice || productWithOffer.price\<close>.
\<close>

fun priceLines ::
  "database \<Rightarrow> time \<Rightarrow> orderLine list \<Rightarrow> IOrderItem list \<times> real
     \<Rightarrow> error + IOrderItem list \<times> real" where
  "priceLines db now [] acc = Inr acc"
| "priceLines db now (item # rest) (orderItems, calculatedSubtotal) =
     (if \<not> validObjectId (productId item) then Inl CastError
      else if \<not> reachable db then Inl DbError
      else
        (case find (\<lambda>p. p_id p = productId item) (productDocs db) of
           None \<Rightarrow> Inl (Error (''Product not found: '' @ productId item))
         | Some p \<Rightarrow>
             (case applyOfferPricing db now p None None of
                Inl e \<Rightarrow> Inl e
              | Inr productWithOffer \<Rightarrow>
                  (let linePrice =
                         (if truthyNum (v_offerPrice productWithOffer)
                          then the (v_offerPrice productWithOffer)
                          else v_price productWithOffer);
                       lineSubtotal = linePrice * of_int (quantity item)
                   in priceLines db now rest
                        (orderItems @
                           [\<lparr> oi_product = p_id p, oi_title = p_title p, oi_price = price p,
                              oi_offerPrice = v_offerPrice productWithOffer,
                              oi_quantity = quantity item, oi_subtotal = lineSubtotal \<rparr>],
                         calculatedSubtotal + lineSubtotal)))))"

text \<open>The first required field of the list that is falsy.\<close>

definition firstMissing :: "(string \<times> string option) list \<Rightarrow> string option" where
  "firstMissing required = map_option fst (find (\<lambda>(name, v). \<not> truthyStr v) required)"

definition validateShippingAddress :: "IShippingAddress \<Rightarrow> error + unit" where
  "validateShippingAddress a =
     (if vatRegistered a then
        (case firstMissing
                [(''companyName'', companyName a), (''phone'', Some (phone a)),
                 (''crNumber'', crNumber a), (''vatNumber'', vatNumber a),
                 (''address'', Some (address a)), (''buildingNumber'', Some (buildingNumber a)),
                 (''district'', Some (district a)), (''postalCode'', postalCode a)] of
           Some field \<Rightarrow> Inl (Error (field @ '' is required for VAT registered companies''))
         | None \<Rightarrow> Inr ())
      else
        (case firstMissing
                [(''firstName'', Some (firstName a)), (''lastName'', Some (lastName a)),
                 (''phone'', Some (phone a)), (''address'', Some (address a)),
                 (''buildingNumber'', Some (buildingNumber a)),
                 (''district'', Some (district a))] of
           Some field \<Rightarrow> Inl (Error (field @ '' is required for individual customers''))
         | None \<Rightarrow>
             if \<not> truthyStr (email a)
             then Inl (Error ''email is required for individual customers'')
             else Inr ()))"

text \<open>
  \<^verbatim>\<open>findNearestBranchByIP\<close>: the IP lookup (an external service) is the parameter
  \<^verbatim>\<open>ipLocation\<close>, giving \<^verbatim>\<open>(latitude, longitude)\<close>; then the spatial query with its default
  radius of 100 km, then the manual fallback.
\<close>

definition findNearestBranchByIP ::
  "(real \<times> real \<Rightarrow> real \<times> real \<Rightarrow> real) \<Rightarrow> (string \<Rightarrow> (real \<times> real) option) \<Rightarrow> database
     \<Rightarrow> string \<Rightarrow> (IBranch \<times> real \<times> real) option" where
  "findNearestBranchByIP geoDistance ipLocation db ipAddress =
     (case ipLocation ipAddress of
        None \<Rightarrow> None
      | Some (lat, lng) \<Rightarrow>
          (case (case findNearestBranchByCoordinates geoDistance db lng lat 100 of
                   None \<Rightarrow> findNearestBranchManual db lng lat
                 | Some b \<Rightarrow> Some b) of
             None \<Rightarrow> None
           | Some nearestBranch \<Rightarrow> Some (nearestBranch, lat, lng)))"

text \<open>
  The branch assignment of \<^verbatim>\<open>createOrder\<close>: \<^verbatim>\<open>assignedBranch\<close> and \<^verbatim>\<open>customerLocation\<close>
  (\<^verbatim>\<open>[longitude, latitude]\<close>).
\<close>

definition assignBranch ::
  "(real \<times> real \<Rightarrow> real \<times> real \<Rightarrow> real) \<Rightarrow> (string \<Rightarrow> (real \<times> real) option) \<Rightarrow> database
     \<Rightarrow> CreateOrderData \<Rightarrow> oid option \<times> (real \<times> real) option" where
  "assignBranch geoDistance ipLocation db orderData =
     (case clientLocation orderData of
        Some (lat, lng) \<Rightarrow>
          (case (case findNearestBranchByCoordinates geoDistance db lng lat 10000 of
                   None \<Rightarrow> findNearestBranchManual db lng lat
                 | Some b \<Rightarrow> Some b) of
             None \<Rightarrow> (None, Some (lng, lat))
           | Some branchAssignment \<Rightarrow> (Some (b_id branchAssignment), Some (lng, lat)))
      | None \<Rightarrow>
          if truthyStr (customerIpAddress orderData) then
            (case findNearestBranchByIP geoDistance ipLocation db
                    (the (customerIpAddress orderData)) of
               None \<Rightarrow> (None, None)
             | Some (b, lat, lng) \<Rightarrow> (Some (b_id b), Some (lng, lat)))
          else (None, None))"

text \<open>
  \<^verbatim>\<open>AddressService.saveAddress\<close>: rejects an unknown customer and a duplicate address, else
  appends the address to the customer's saved addresses. It is called without the session.
\<close>

definition sameAddress :: "IShippingAddress \<Rightarrow> IShippingAddress \<Rightarrow> bool" where
  "sameAddress a b =
     (firstName a = firstName b \<and> lastName a = lastName b \<and> phone a = phone b \<and>
      address a = address b \<and> district a = district b \<and>
      buildingNumber a = buildingNumber b \<and> vatRegistered a = vatRegistered b \<and>
      (case postalCode a of None \<Rightarrow> [] | Some s \<Rightarrow> s)
        = (case postalCode b of None \<Rightarrow> [] | Some s \<Rightarrow> s) \<and>
      (case companyName a of None \<Rightarrow> [] | Some s \<Rightarrow> s)
        = (case companyName b of None \<Rightarrow> [] | Some s \<Rightarrow> s))"

definition saveAddress :: "orderStore \<Rightarrow> oid \<Rightarrow> savedAddress \<Rightarrow> error + orderStore" where
  "saveAddress store ident addr =
     (case find (\<lambda>c. cust_id c = ident) (customerDocs store) of
        None \<Rightarrow> Inl (Error ''Failed to save address: Error: Customer not found'')
      | Some customer \<Rightarrow>
          if list_ex (\<lambda>known. sameAddress (sa_address known) (sa_address addr))
               (savedAddresses customer)
          then Inl (Error ''Failed to save address: Error: This address already exists'')
          else Inr (store \<lparr> customerDocs :=
                      map (\<lambda>c. if cust_id c = ident
                                then c \<lparr> savedAddresses := savedAddresses c @ [addr] \<rparr>
                                else c)
                        (customerDocs store) \<rparr>))"

text \<open>What \<^verbatim>\<open>order.save\<close> checks of the order schema: every quantity is at least 1.\<close>

definition orderValid :: "IOrder \<Rightarrow> bool" where
  "orderValid order = list_all (\<lambda>item. 1 \<le> oi_quantity item) (o_items order)"

text \<open>
  \<^verbatim>\<open>createOrder\<close> up to \<^verbatim>\<open>commitTransaction\<close>. The result pairs the outcome with the store
  after the call: on every \<^verbatim>\<open>throw\<close> the transaction is aborted and the store is the one
  the call started from.
\<close>

definition createOrder ::
  "(real \<times> real \<Rightarrow> real \<times> real \<Rightarrow> real) \<Rightarrow> (string \<Rightarrow> (real \<times> real) option) \<Rightarrow> orderStore
     \<Rightarrow> time \<Rightarrow> CreateOrderData \<Rightarrow> (error + IOrder) \<times> orderStore" where
  "createOrder geoDistance ipLocation store now orderData =
     (let db = catalogue store in
      if \<not> validObjectId (customerId orderData) then (Inl CastError, store)
      else if \<not> reachable db then (Inl DbError, store)
      else
        (case find (\<lambda>c. cust_id c = customerId orderData) (customerDocs store) of
           None \<Rightarrow> (Inl (Error ''Customer not found''), store)
         | Some customer \<Rightarrow>
             (case priceLines db now (od_items orderData) ([], 0) of
                Inl e \<Rightarrow> (Inl e, store)
              | Inr (orderItems, calculatedSubtotal) \<Rightarrow>
                  if \<bar>calculatedSubtotal - subtotal orderData\<bar> > 0.01
                  then (Inl (Error ''Subtotal mismatch''), store)
                  else if \<bar>(calculatedSubtotal + shipping orderData) - total orderData\<bar> > 0.01
                  then (Inl (Error ''Total amount mismatch''), store)
                  else
                    (case validateShippingAddress (shippingAddress orderData) of
                       Inl e \<Rightarrow> (Inl e, store)
                     | Inr u \<Rightarrow>
                         (let (assignedBranch, customerLocation) =
                                assignBranch geoDistance ipLocation db orderData;
                              order =
                                \<lparr> orderNumber = length (orderDocs store) + 1,
                                  o_customer = customerId orderData,
                                  o_branch = assignedBranch,
                                  o_items = orderItems,
                                  o_shippingAddress = shippingAddress orderData,
                                  o_paymentMethod = od_paymentMethod orderData,
                                  o_subtotal = subtotal orderData,
                                  o_shipping = shipping orderData,
                                  o_total = total orderData,
                                  o_notes = od_notes orderData,
                                  o_customerIpAddress = customerIpAddress orderData,
                                  o_customerLocation = customerLocation \<rparr>
                          in if \<not> orderValid order then (Inl ValidationError, store)
                             else
                               (let withAddress =
                                      (if saveInfo orderData then
                                         (case saveAddress store (customerId orderData)
                                                 \<lparr> sa_address = shippingAddress orderData,
                                                   addressLabel =
                                                     (if vatRegistered (shippingAddress orderData)
                                                      then ''Company Address''
                                                      else ''Home Address'') \<rparr> of
                                            Inl e \<Rightarrow> store
                                          | Inr saved \<Rightarrow> saved)
                                       else store)
                                in (Inr order,
                                    withAddress \<lparr> orderDocs := orderDocs withAddress @ [order] \<rparr>)))))))"

section \<open>Example data\<close>

definition plainOffer :: "'p IOfferCampaign" where
  "plainOffer =
     \<lparr> c_id = ''c0'', title = ''Campaign'', startsAt = None, endsAt = None, isActive = True,
       applyMode = PerItem, bulkPercent = None, bulkAmount = None, items = [],
       branches = [], cities = [], geo = None, categoryIds = [], productIds = [],
       priority = 0, stackable = False, branch = None, relevanceScore = None \<rparr>"

definition plainProduct :: IProduct where
  "plainProduct =
     \<lparr> p_id = ''p1'', p_title = ''Product'', price = 20, p_offerPrice = None,
       category = Some (CategoryId ''cat1''), p_isActive = True \<rparr>"

definition priced999 :: IProduct where
  "priced999 = plainProduct \<lparr> price := 9.99 \<rparr>"

definition priced9999 :: IProduct where
  "priced9999 = plainProduct \<lparr> price := 9.999 \<rparr>"

definition fifteenPercent :: populatedOffer where
  "fifteenPercent =
     plainOffer \<lparr> applyMode := BulkPercent, bulkPercent := Some 15, productIds := [''p1''] \<rparr>"

definition amountOff :: populatedOffer where
  "amountOff =
     plainOffer \<lparr> applyMode := BulkAmount, bulkAmount := Some 0.001, productIds := [''p1''] \<rparr>"

definition fixed25 :: populatedOffer where
  "fixed25 =
     plainOffer \<lparr> items := [\<lparr> product = Some plainProduct, offerPrice = Some 25,
                                 percent = None \<rparr>] \<rparr>"

definition fixed0 :: populatedOffer where
  "fixed0 =
     plainOffer \<lparr> items := [\<lparr> product = Some plainProduct, offerPrice = Some 0,
                                 percent = None \<rparr>] \<rparr>"

definition fixed5 :: populatedOffer where
  "fixed5 =
     plainOffer \<lparr> items := [\<lparr> product = Some plainProduct, offerPrice = Some 5,
                                 percent = None \<rparr>] \<rparr>"

text \<open>
  Three non-stackable campaigns: X (priority 10) on product q, H (priority 5) on products p
  and q, L (priority 1) on product p.
\<close>

definition itemFor :: "oid \<Rightarrow> IProduct option IOfferItem" where
  "itemFor p =
     \<lparr> product = Some (plainProduct \<lparr> p_id := p \<rparr>), offerPrice = None, percent = None \<rparr>"

definition campaignX :: populatedOffer where
  "campaignX = plainOffer \<lparr> c_id := ''X'', priority := 10, items := [itemFor ''q''] \<rparr>"

definition campaignH :: populatedOffer where
  "campaignH =
     plainOffer \<lparr> c_id := ''H'', priority := 5, items := [itemFor ''p'', itemFor ''q''] \<rparr>"

definition campaignL :: populatedOffer where
  "campaignL = plainOffer \<lparr> c_id := ''L'', priority := 1, items := [itemFor ''p''] \<rparr>"

text \<open>
  Two non-stackable campaigns that cover product \<^verbatim>\<open>p1\<close> of category \<^verbatim>\<open>cat1\<close>, one through
  \<^verbatim>\<open>productIds\<close> and one through \<^verbatim>\<open>categoryIds\<close>; their items are on two other products.
\<close>

definition coverHigh :: populatedOffer where
  "coverHigh =
     plainOffer \<lparr> c_id := ''CH'', applyMode := BulkPercent, bulkPercent := Some 10,
                  items := [itemFor ''a''], productIds := [''p1''], priority := 5 \<rparr>"

definition coverLow :: populatedOffer where
  "coverLow =
     plainOffer \<lparr> c_id := ''CL'', applyMode := BulkAmount, bulkAmount := Some 2,
                  items := [itemFor ''b''], categoryIds := [''cat1''], priority := 1 \<rparr>"

text \<open>A store that rejects every query, and a product with a well-formed object id.\<close>

definition offlineDb :: database where
  "offlineDb =
     \<lparr> offerCampaigns = [], productDocs = [plainProduct], branchDocs = [], reachable = False \<rparr>"

definition validProduct :: IProduct where
  "validProduct = plainProduct \<lparr> p_id := ''64b7f0c2a1d3e4f5a6b7c8d9'' \<rparr>"

text \<open>
  A campaign restricted to a circle of 5 km around a point in Riyadh, a store that holds
  only this campaign (and no branch), and a request from the centre of the circle.
\<close>

definition riyadhCircle :: storedOffer where
  "riyadhCircle =
     plainOffer \<lparr> c_id := ''G'', geo := Some (GeoPoint 46.6753 24.7136 (Some 5000)),
                  items := [\<lparr> product = ''p1'', offerPrice = Some 5, percent = None \<rparr>] \<rparr>"

definition circleDb :: database where
  "circleDb =
     \<lparr> offerCampaigns = [riyadhCircle], productDocs = [plainProduct], branchDocs = [],
       reachable = True \<rparr>"

definition centreRequest :: offerRequest where
  "centreRequest =
     \<lparr> q_lat = Some 24.7136, q_lng = Some 46.6753, q_cityName = None, q_branchId = None \<rparr>"

text \<open>
  One active branch on the equator at longitude 180, and the haversine distance in meters
  as the store's distance.
\<close>

definition farBranch :: IBranch where
  "farBranch =
     \<lparr> b_id = ''b1'', b_name = ''Far'', b_city = None, location = Some (180, 0),
       b_isActive = True \<rparr>"

definition nearBranch :: IBranch where
  "nearBranch =
     \<lparr> b_id = ''b2'', b_name = ''Near'', b_city = None, location = Some (0, 0),
       b_isActive = True \<rparr>"




text \<open>
  A store with one customer and the product priced 20, and an order of two units that
  submits the subtotal 30.
\<close>

definition homeAddress :: IShippingAddress where
  "homeAddress =
     \<lparr> firstName = ''A'', lastName = ''B'', email = Some ''a@b.c'', phone = ''050'',
       companyName = None, address = ''Street'', apartment = None, district = ''D'',
       buildingNumber = ''1'', secondaryNumber = None, postalCode = None, crNumber = None,
       vatNumber = None, vatRegistered = False \<rparr>"

definition orderShop :: orderStore where
  "orderShop =
     \<lparr> catalogue = \<lparr> offerCampaigns = [], productDocs = [validProduct], branchDocs = [],
                     reachable = True \<rparr>,
       customerDocs = [\<lparr> cust_id = ''64b7f0c2a1d3e4f5a6b7c8c1'', savedAddresses = [] \<rparr>],
       orderDocs = [] \<rparr>"

definition underpaidOrder :: CreateOrderData where
  "underpaidOrder =
     \<lparr> customerId = ''64b7f0c2a1d3e4f5a6b7c8c1'',
       od_items = [\<lparr> productId = ''64b7f0c2a1d3e4f5a6b7c8d9'', quantity = 2 \<rparr>],
       shippingAddress = homeAddress, od_paymentMethod = Cod, subtotal = 30, shipping = 0,
       total = 30, od_notes = None, saveInfo = True, customerIpAddress = None,
       clientLocation = None \<rparr>"

text \<open>
  A store whose only campaign, ``Summer'', is global, runs from time 100 to time 200 and
  lists the product with the well-formed id; an admin and the operator of a branch; a
  submission of that product; a submission of that product together with a product that
  does not exist; and a submission of that product with its id in upper case.
\<close>

definition summerSale :: storedOffer where
  "summerSale =
     plainOffer \<lparr> c_id := ''64b7f0c2a1d3e4f5a6b7c8aa'', title := ''Summer'',
                  startsAt := Some 100, endsAt := Some 200,
                  items := [\<lparr> product = ''64b7f0c2a1d3e4f5a6b7c8d9'', offerPrice = Some 5,
                              percent = None \<rparr>] \<rparr>"

definition shopDb :: database where
  "shopDb =
     \<lparr> offerCampaigns = [summerSale], productDocs = [validProduct], branchDocs = [],
       reachable = True \<rparr>"

definition adminUser :: requestUser where
  "adminUser = \<lparr> u_id = ''u1'', role = AdminRole, u_branchId = None \<rparr>"

definition branchUser :: requestUser where
  "branchUser =
     \<lparr> u_id = ''u2'', role = BranchRole, u_branchId = Some ''64b7f0c2a1d3e4f5a6b7c8b1'' \<rparr>"

definition overlappingDto :: createOfferDto where
  "overlappingDto =
     \<lparr> dto_title = ''Autumn'', dto_startsAt = None, dto_endsAt = None, dto_applyMode = PerItem,
       dto_bulkPercent = None, dto_bulkAmount = None, dto_branch = None,
       dto_items = [\<lparr> product = ''64b7f0c2a1d3e4f5a6b7c8d9'', offerPrice = Some 4,
                       percent = None \<rparr>] \<rparr>"

definition missingProductDto :: createOfferDto where
  "missingProductDto =
     overlappingDto \<lparr> dto_items :=
       [\<lparr> product = ''64b7f0c2a1d3e4f5a6b7c8d9'', offerPrice = Some 4, percent = None \<rparr>,
        \<lparr> product = ''64b7f0c2a1d3e4f5a6b7c8d0'', offerPrice = Some 4, percent = None \<rparr>] \<rparr>"

definition upperCaseDto :: createOfferDto where
  "upperCaseDto =
     overlappingDto \<lparr> dto_items :=
       [\<lparr> product = ''64B7F0C2A1D3E4F5A6B7C8D9'', offerPrice = Some 4, percent = None \<rparr>] \<rparr>"

text \<open>
  A store with two active campaigns that have no item: ``Winter'' covers the product
  through \<^verbatim>\<open>productIds\<close>, ``Spring'' through \<^verbatim>\<open>categoryIds\<close>.
\<close>

definition winterSale :: storedOffer where
  "winterSale =
     plainOffer \<lparr> c_id := ''64b7f0c2a1d3e4f5a6b7c8ac'', title := ''Winter'',
                  applyMode := BulkPercent, bulkPercent := Some 10,
                  productIds := [''64b7f0c2a1d3e4f5a6b7c8d9''] \<rparr>"

definition springSale :: storedOffer where
  "springSale =
     plainOffer \<lparr> c_id := ''64b7f0c2a1d3e4f5a6b7c8ae'', title := ''Spring'',
                  applyMode := BulkAmount, bulkAmount := Some 2, categoryIds := [''cat1''] \<rparr>"

definition winterDb :: database where
  "winterDb =
     \<lparr> offerCampaigns = [winterSale, springSale], productDocs = [validProduct],
       branchDocs = [], reachable = True \<rparr>"

text \<open>
  A store with ``Summer'' and a second campaign, ``Autumn'', on another product, and an
  update that moves the items of ``Autumn'' to the product that ``Summer'' lists.
\<close>

definition otherProduct :: IProduct where
  "otherProduct = plainProduct \<lparr> p_id := ''64b7f0c2a1d3e4f5a6b7c8d0'', p_title := ''Other'' \<rparr>"

definition autumnSale :: storedOffer where
  "autumnSale =
     plainOffer \<lparr> c_id := ''64b7f0c2a1d3e4f5a6b7c8ab'', title := ''Autumn'',
                  items := [\<lparr> product = ''64b7f0c2a1d3e4f5a6b7c8d0'', offerPrice = Some 7,
                              percent = None \<rparr>] \<rparr>"

definition twoOfferDb :: database where
  "twoOfferDb =
     \<lparr> offerCampaigns = [summerSale, autumnSale], productDocs = [validProduct, otherProduct],
       branchDocs = [], reachable = True \<rparr>"

definition itemsUpdate :: updateOfferDto where
  "itemsUpdate =
     \<lparr> up_title = None, up_startsAt = None, up_endsAt = None, up_isActive = None,
       up_applyMode = None, up_bulkPercent = None, up_bulkAmount = None, up_branch = None,
       up_items = Some [\<lparr> product = ''64b7f0c2a1d3e4f5a6b7c8d9'', offerPrice = Some 4,
                          percent = None \<rparr>] \<rparr>"

section \<open>Verification: pricing\<close>

lemma finite_candidatePrices: "finite (candidatePrices offers p)"
  by (simp add: candidatePrices_def)

lemma candidatePrices_Nil: "candidatePrices [] p = {}"
  by (simp add: candidatePrices_def)

lemma candidatePrices_snoc:
  "candidatePrices (offers @ [offer]) p =
     (if appliesToProduct offer p then insert (calculatedPrice offer p) (candidatePrices offers p)
      else candidatePrices offers p)"
  by (auto simp: candidatePrices_def)

lemma priceLoop_Nil: "priceLoop p [] = \<lparr> acc_effectivePrice = price p, acc_hasOffer = False, acc_offerDiscount = 0,
         acc_offerPercent = 0, acc_applicableOffers = [] \<rparr>"
  by (simp add: priceLoop_def)

lemma priceLoop_snoc: "priceLoop p (offers @ [offer]) = priceStep p (priceLoop p offers) offer"
  by (simp add: priceLoop_def)

lemma priceLoop_effective:
  "acc_effectivePrice (priceLoop p offers) = Min (insert (price p) (candidatePrices offers p))"
proof (induction offers rule: rev_induct)
  case Nil
  show ?case by (simp add: priceLoop_Nil candidatePrices_Nil)
next
  case (snoc offer offers)
  let ?S = "insert (price p) (candidatePrices offers p)"
  have fin: "finite ?S" and ne: "?S \<noteq> {}" by (simp_all add: finite_candidatePrices)
  show ?case
  proof (cases "appliesToProduct offer p")
    case False
    then show ?thesis using snoc by (simp add: priceLoop_snoc priceStep_def candidatePrices_snoc)
  next
    case True
    have "Min (insert (price p) (candidatePrices (offers @ [offer]) p)) = Min (insert (calculatedPrice offer p) ?S)"
      using True by (simp add: candidatePrices_snoc insert_commute)
    also have "\<dots> = min (calculatedPrice offer p) (Min ?S)"
      using fin ne by (rule Min_insert)
    finally show ?thesis using True snoc
      by (simp add: priceLoop_snoc priceStep_def Let_def min_def)
  qed
qed

lemma priceLoop_hasOffer:
  "acc_hasOffer (priceLoop p offers) = (\<exists>offer \<in> set offers. appliesToProduct offer p \<and> calculatedPrice offer p < price p)"
proof (induction offers rule: rev_induct)
  case Nil
  show ?case by (simp add: priceLoop_Nil)
next
  case (snoc offer offers)
  have le: "acc_effectivePrice (priceLoop p offers) \<le> price p"
    by (simp add: priceLoop_effective finite_candidatePrices)
  have ex: "acc_effectivePrice (priceLoop p offers) < price p \<Longrightarrow> acc_hasOffer (priceLoop p offers)"
  proof -
    assume "acc_effectivePrice (priceLoop p offers) < price p"
    then have "Min (insert (price p) (candidatePrices offers p)) < price p" by (simp add: priceLoop_effective)
    then obtain c where "c \<in> candidatePrices offers p" "c < price p"
      by (metis Min_in finite_candidatePrices finite_insert insert_iff insert_not_empty less_irrefl)
    then show ?thesis using snoc by (auto simp: candidatePrices_def)
  qed
  show ?case using snoc le ex
    by (auto simp: priceLoop_snoc priceStep_def Let_def)
qed

lemma round2_mono: "x \<le> y \<Longrightarrow> round2 x \<le> round2 y"
  by (simp add: round2_def mathRound_def divide_right_mono floor_mono)

lemma round2_nonneg: "0 \<le> x \<Longrightarrow> 0 \<le> round2 x"
  by (simp add: round2_def mathRound_def)




lemma fifteen_applies: "appliesToProduct fifteenPercent priced999"
  by (simp add: appliesToProduct_def fifteenPercent_def plainOffer_def plainProduct_def priced999_def)

lemma fifteen_price: "calculatedPrice fifteenPercent priced999 = 8.4915"
  by (simp add: calculatedPrice_def appliesToProduct_def directItem_def fifteenPercent_def plainOffer_def plainProduct_def priced999_def
     truthyNum_def)

lemma fifteen_candidates: "candidatePrices [fifteenPercent] priced999 = {8.4915}"
  using fifteen_applies fifteen_price by (auto simp add: candidatePrices_def)

lemma priceProduct_effective: "effectivePrice (priceProduct offers p) = Some (round2 (acc_effectivePrice (priceLoop p offers)))"
  by (simp add: priceProduct_def Let_def)

lemma priceProduct_hasOffer: "hasOffer (priceProduct offers p) = acc_hasOffer (priceLoop p offers)"
  by (simp add: priceProduct_def Let_def)

lemma priced999_price: "price priced999 = 9.99"
  by (simp add: priced999_def plainProduct_def)

lemma fifteen_minimum:
  "Min (insert (price priced999) (candidatePrices [fifteenPercent] priced999)) = 8.4915"
  by (simp add: fifteen_candidates priced999_price)

lemma fifteen_effective: "effectivePrice (priceProduct [fifteenPercent] priced999) = Some 8.49"
  by (simp add: priceProduct_effective priceLoop_effective fifteen_minimum round2_def mathRound_def)

text \<open>
  Claim C1 as stated fails: a product priced 9.99 under a single 15 percent bulk campaign has
  the candidate price 8.4915, and the calculator returns 8.49, not the minimum of the
  candidate prices.
\<close>
theorem effectivePrice_unrounded_minimum_fails:
  "effectivePrice (priceProduct [fifteenPercent] priced999) = Some 8.49 \<and>
   effectivePrice (priceProduct [fifteenPercent] priced999)
     \<noteq> Some (Min (candidatePrices [fifteenPercent] priced999))"
  by (simp add: fifteen_effective fifteen_candidates)

lemma applies_flags [simp]:
  "appliesToProduct (offer\<lparr>priority := a, stackable := b\<rparr>) p = appliesToProduct offer p"
  by (simp add: appliesToProduct_def directItem_def cong: option.case_cong)

lemma calculated_flags [simp]:
  "calculatedPrice (offer\<lparr>priority := a, stackable := b\<rparr>) p = calculatedPrice offer p"
  by (simp add: calculatedPrice_def directItem_def Let_def cong: option.case_cong if_cong)

lemma priceStep_flags [simp]:
  "priceStep p acc (offer\<lparr>priority := a, stackable := b\<rparr>) = priceStep p acc offer"
  by (simp add: priceStep_def)

lemma priceLoop_flags:
  "foldl (priceStep p) acc (map (\<lambda>offer. offer\<lparr>priority := f offer, stackable := g offer\<rparr>) offers) = foldl (priceStep p) acc offers"
  by (induction offers arbitrary: acc) simp_all

text \<open>
  Claim C1, amended: for every product and every list of campaigns, the returned
  \<^verbatim>\<open>effectivePrice\<close> is the minimum of the original price and the candidate prices of the
  applicable campaigns, rounded to two decimals; \<^verbatim>\<open>hasOffer\<close> holds exactly when some
  applicable campaign yields a price below the original; when none does, the effective
  price is the original price rounded to two decimals; and the result does not depend on
  the campaigns' \<^verbatim>\<open>priority\<close> and \<^verbatim>\<open>stackable\<close> fields.
\<close>
theorem effectivePrice_rounded_minimum:
  "effectivePrice (priceProduct offers p) =
     Some (round2 (Min (insert (price p) (candidatePrices offers p))))
   \<and> hasOffer (priceProduct offers p) =
       (\<exists>offer \<in> set offers. appliesToProduct offer p \<and> calculatedPrice offer p < price p)
   \<and> ((\<forall>offer \<in> set offers. appliesToProduct offer p \<longrightarrow> price p \<le> calculatedPrice offer p)
        \<longrightarrow> effectivePrice (priceProduct offers p) = Some (round2 (price p)))
   \<and> priceProduct (map (\<lambda>offer. offer\<lparr>priority := f offer, stackable := g offer\<rparr>) offers) p
       = priceProduct offers p"
proof (intro conjI impI)
  show e: "effectivePrice (priceProduct offers p) =
     Some (round2 (Min (insert (price p) (candidatePrices offers p))))"
    by (simp add: priceProduct_effective priceLoop_effective)
  show "hasOffer (priceProduct offers p) =
       (\<exists>offer \<in> set offers. appliesToProduct offer p \<and> calculatedPrice offer p < price p)"
    by (simp add: priceProduct_hasOffer priceLoop_hasOffer)
  show "priceProduct (map (\<lambda>offer. offer\<lparr>priority := f offer, stackable := g offer\<rparr>) offers) p
       = priceProduct offers p"
    by (simp add: priceProduct_def priceLoop_def priceLoop_flags)
next
  assume a: "\<forall>offer \<in> set offers. appliesToProduct offer p \<longrightarrow> price p \<le> calculatedPrice offer p"
  have "Min (insert (price p) (candidatePrices offers p)) = price p"
  proof (rule Min_eqI)
    show "finite (insert (price p) (candidatePrices offers p))" by (simp add: finite_candidatePrices)
    show "price p \<in> insert (price p) (candidatePrices offers p)" by simp
    fix y assume "y \<in> insert (price p) (candidatePrices offers p)"
    then show "price p \<le> y" using a by (auto simp: candidatePrices_def)
  qed
  then show "effectivePrice (priceProduct offers p) = Some (round2 (price p))"
    by (simp add: priceProduct_effective priceLoop_effective)
qed

text \<open>
  The amended claim C1 at the product priced 9.99 under the 15 percent campaign: 8.49.
\<close>
theorem effectivePrice_rounded_minimum_witness:
  "effectivePrice (priceProduct [fifteenPercent] priced999) = Some 8.49 \<and>
   hasOffer (priceProduct [fifteenPercent] priced999)"
proof -
  note inst = effectivePrice_rounded_minimum [of "[fifteenPercent]" priced999]
  have "effectivePrice (priceProduct [fifteenPercent] priced999) = Some (round2 8.4915)"
    using inst by (simp only: fifteen_minimum)
  moreover have "hasOffer (priceProduct [fifteenPercent] priced999)"
    using inst fifteen_applies by (simp add: fifteen_price priced999_price)
  ultimately show ?thesis by (simp add: round2_def mathRound_def)
qed

lemma candidates_single:
  assumes "filter (\<lambda>offer. appliesToProduct offer p) offers = [offer]"
  shows "candidatePrices offers p = {calculatedPrice offer p}"
proof -
  have "{x \<in> set offers. appliesToProduct x p} = set (filter (\<lambda>offer. appliesToProduct offer p) offers)"
    by auto
  then show ?thesis using assms by (simp add: candidatePrices_def)
qed

lemma calculatedPrice_perItem:
  "applyMode offer = PerItem \<Longrightarrow>
   calculatedPrice offer p =
     (case directItem offer (p_id p) of None \<Rightarrow> price p | Some item \<Rightarrow> perItemPrice item (price p))"
  by (simp add: calculatedPrice_def Let_def cong: option.case_cong)

lemma calculatedPrice_bulkPercent:
  "appliesToProduct offer p \<Longrightarrow> applyMode offer = BulkPercent \<Longrightarrow> bulkPercent offer = Some v \<Longrightarrow>
   calculatedPrice offer p = price p * (1 - v / 100)"
  by (auto simp add: calculatedPrice_def Let_def truthyNum_def split: option.splits)

lemma calculatedPrice_bulkAmount:
  "appliesToProduct offer p \<Longrightarrow> applyMode offer = BulkAmount \<Longrightarrow> bulkAmount offer = Some v \<Longrightarrow> v \<noteq> 0 \<Longrightarrow>
   calculatedPrice offer p = max 0 (price p - v)"
  by (auto simp add: calculatedPrice_def Let_def truthyNum_def split: option.splits)

text \<open>
  Claim C5, amended: for a product covered by exactly one applicable campaign, the
  effective price is the smaller of the original price and that campaign's computed price,
  rounded to two decimals, where the computed price is: under \<^verbatim>\<open>perItem\<close> the matching item's
  fixed offer price when it is positive, else \<^verbatim>\<open>price * (1 - percent/100)\<close> when its percent is
  positive, else the original price; under \<^verbatim>\<open>bulkPercent\<close>, \<^verbatim>\<open>price * (1 - percent/100)\<close>;
  under \<^verbatim>\<open>bulkAmount\<close> with a non-zero amount, \<^verbatim>\<open>max(0, price - amount)\<close>.
\<close>
theorem single_campaign_price:
  assumes "filter (\<lambda>offer. appliesToProduct offer p) offers = [offer]"
  shows "effectivePrice (priceProduct offers p) =
           Some (round2 (min (price p) (calculatedPrice offer p)))
     \<and> (applyMode offer = PerItem \<and> directItem offer (p_id p) = Some item \<and>
          offerPrice item = Some fixed \<and> 0 < fixed \<longrightarrow> calculatedPrice offer p = fixed)
     \<and> (applyMode offer = PerItem \<and> directItem offer (p_id p) = Some item \<and>
          (offerPrice item = None \<or> offerPrice item = Some fixed \<and> fixed \<le> 0) \<and>
          percent item = Some pct \<and> 0 < pct \<longrightarrow>
          calculatedPrice offer p = price p * (1 - pct / 100))
     \<and> (applyMode offer = PerItem \<and> directItem offer (p_id p) = Some item \<and>
          (offerPrice item = None \<or> offerPrice item = Some fixed \<and> fixed \<le> 0) \<and>
          (percent item = None \<or> percent item = Some pct \<and> pct \<le> 0) \<longrightarrow>
          calculatedPrice offer p = price p)
     \<and> (applyMode offer = BulkPercent \<and> bulkPercent offer = Some v \<longrightarrow>
          calculatedPrice offer p = price p * (1 - v / 100))
     \<and> (applyMode offer = BulkAmount \<and> bulkAmount offer = Some v \<and> v \<noteq> 0 \<longrightarrow>
          calculatedPrice offer p = max 0 (price p - v))"
proof -
  have app: "appliesToProduct offer p"
  proof -
    have "offer \<in> set (filter (\<lambda>offer. appliesToProduct offer p) offers)" using assms by simp
    then show ?thesis by simp
  qed
  have "effectivePrice (priceProduct offers p) =
           Some (round2 (min (price p) (calculatedPrice offer p)))"
    by (simp add: priceProduct_effective priceLoop_effective candidates_single [OF assms] min.commute)
  moreover have "applyMode offer = PerItem \<and> directItem offer (p_id p) = Some item \<and>
          offerPrice item = Some fixed \<and> 0 < fixed \<longrightarrow> calculatedPrice offer p = fixed"
    by (auto simp: calculatedPrice_perItem perItemPrice_def truthyNum_def)
  moreover have "applyMode offer = PerItem \<and> directItem offer (p_id p) = Some item \<and>
          (offerPrice item = None \<or> offerPrice item = Some fixed \<and> fixed \<le> 0) \<and>
          percent item = Some pct \<and> 0 < pct \<longrightarrow>
          calculatedPrice offer p = price p * (1 - pct / 100)"
    by (auto simp: calculatedPrice_perItem perItemPrice_def truthyNum_def)
  moreover have "applyMode offer = PerItem \<and> directItem offer (p_id p) = Some item \<and>
          (offerPrice item = None \<or> offerPrice item = Some fixed \<and> fixed \<le> 0) \<and>
          (percent item = None \<or> percent item = Some pct \<and> pct \<le> 0) \<longrightarrow>
          calculatedPrice offer p = price p"
    by (auto simp: calculatedPrice_perItem perItemPrice_def truthyNum_def)
  moreover have "applyMode offer = BulkPercent \<and> bulkPercent offer = Some v \<longrightarrow>
          calculatedPrice offer p = price p * (1 - v / 100)"
    using app by (auto simp: calculatedPrice_bulkPercent)
  moreover have "applyMode offer = BulkAmount \<and> bulkAmount offer = Some v \<and> v \<noteq> 0 \<longrightarrow>
          calculatedPrice offer p = max 0 (price p - v)"
    using app by (auto simp: calculatedPrice_bulkAmount)
  ultimately show ?thesis by blast
qed

lemma plainProduct_price: "price plainProduct = 20"
  by (simp add: plainProduct_def)

lemma fixed25_applies: "appliesToProduct fixed25 plainProduct"
  by (simp add: appliesToProduct_def directItem_def fixed25_def plainOffer_def)

lemma fixed25_only: "filter (\<lambda>offer. appliesToProduct offer plainProduct) [fixed25] = [fixed25]"
  by (simp add: fixed25_applies)

lemma fixed25_calc: "calculatedPrice fixed25 plainProduct = 25"
  by (simp add: calculatedPrice_perItem perItemPrice_def truthyNum_def directItem_def fixed25_def plainOffer_def)

lemma fixed25_spec: "specCampaignPrice fixed25 plainProduct = 25"
  by (simp add: specCampaignPrice_def directItem_def fixed25_def plainOffer_def)

lemma fixed0_applies: "appliesToProduct fixed0 plainProduct"
  by (simp add: appliesToProduct_def directItem_def fixed0_def plainOffer_def)

lemma fixed0_only: "filter (\<lambda>offer. appliesToProduct offer plainProduct) [fixed0] = [fixed0]"
  by (simp add: fixed0_applies)

lemma fixed0_calc: "calculatedPrice fixed0 plainProduct = 20"
  by (simp add: calculatedPrice_perItem perItemPrice_def truthyNum_def directItem_def fixed0_def plainOffer_def plainProduct_price)

lemma fixed0_spec: "specCampaignPrice fixed0 plainProduct = 0"
  by (simp add: specCampaignPrice_def directItem_def fixed0_def plainOffer_def)

lemma round2_int [simp]: "round2 (of_int n) = of_int n"
proof -
  have "\<lfloor>real_of_int n * 100 + 1 / 2\<rfloor> = n * 100" by linarith
  then show ?thesis by (simp add: round2_def mathRound_def)
qed

lemma round2_20: "round2 20 = 20" "round2 25 = 25" "round2 0 = 0" "round2 5 = 5"
  by (simp_all add: round2_def mathRound_def)

lemma fixed25_effective: "effectivePrice (priceProduct [fixed25] plainProduct) = Some 20"
  by (simp add: priceProduct_effective priceLoop_effective candidates_single [OF fixed25_only] fixed25_calc plainProduct_price round2_20)

lemma fixed0_effective: "effectivePrice (priceProduct [fixed0] plainProduct) = Some 20"
  by (simp add: priceProduct_effective priceLoop_effective candidates_single [OF fixed0_only] fixed0_calc plainProduct_price round2_20)

text \<open>
  Claim C5 as stated fails on a product priced 20 covered by a single \<^verbatim>\<open>perItem\<close> campaign:
  with the fixed offer price 25 the claim's formula gives 25 and the calculator returns 20;
  with the fixed offer price 0 the claim's formula gives 0 and the calculator returns 20.
\<close>
theorem single_campaign_formula_fails:
  "filter (\<lambda>offer. appliesToProduct offer plainProduct) [fixed25] = [fixed25] \<and>
   effectivePrice (priceProduct [fixed25] plainProduct) = Some 20 \<and>
   round2 (specCampaignPrice fixed25 plainProduct) = 25 \<and>
   filter (\<lambda>offer. appliesToProduct offer plainProduct) [fixed0] = [fixed0] \<and>
   effectivePrice (priceProduct [fixed0] plainProduct) = Some 20 \<and>
   round2 (specCampaignPrice fixed0 plainProduct) = 0"
  by (simp add: fixed25_applies fixed0_applies fixed25_effective fixed0_effective fixed25_spec fixed0_spec round2_20)

lemma fixed5_applies: "appliesToProduct fixed5 plainProduct"
  by (simp add: appliesToProduct_def directItem_def fixed5_def plainOffer_def)

lemma fixed5_only: "filter (\<lambda>offer. appliesToProduct offer plainProduct) [fixed5] = [fixed5]"
  by (simp add: fixed5_applies)

lemma fixed5_direct: "directItem fixed5 (p_id plainProduct) = Some \<lparr> product = Some plainProduct, offerPrice = Some 5, percent = None \<rparr>"
  by (simp add: directItem_def fixed5_def plainOffer_def)

text \<open>
  The amended claim C5 at a product priced 20 with a single campaign fixing its price at 5.
\<close>
theorem single_campaign_price_witness:
  "filter (\<lambda>offer. appliesToProduct offer plainProduct) [fixed5] = [fixed5] \<and>
   effectivePrice (priceProduct [fixed5] plainProduct) = Some 5"
proof -
  note inst = single_campaign_price [OF fixed5_only,
      of "\<lparr> product = Some plainProduct, offerPrice = Some 5, percent = None \<rparr>" 5]
  have "applyMode fixed5 = PerItem" by (simp add: fixed5_def plainOffer_def)
  then have "calculatedPrice fixed5 plainProduct = 5"
    using inst fixed5_direct by simp
  then show ?thesis using inst by (simp add: fixed5_applies plainProduct_price round2_20)
qed

lemma directItem_in_items: "directItem offer i = Some item \<Longrightarrow> item \<in> set (items offer)"
  by (auto simp: directItem_def find_Some_iff)

lemma perItemPrice_nonneg:
  "itemWithinSchema item \<Longrightarrow> 0 \<le> x \<Longrightarrow> 0 \<le> perItemPrice item x"
  by (auto simp: perItemPrice_def itemWithinSchema_def truthyNum_def split: option.splits)

lemma calculatedPrice_nonneg:
  assumes "offerWithinSchema offer" "0 \<le> price p"
  shows "0 \<le> calculatedPrice offer p"
proof -
  have item: "\<And>item. directItem offer (p_id p) = Some item \<Longrightarrow> 0 \<le> perItemPrice item (price p)"
    using assms directItem_in_items
    by (auto simp: offerWithinSchema_def list_all_iff intro!: perItemPrice_nonneg)
  have pct: "\<And>v. bulkPercent offer = Some v \<Longrightarrow> 0 \<le> price p * (1 - v / 100)"
    using assms by (auto simp: offerWithinSchema_def)
  show ?thesis using item pct assms(2)
    by (auto simp: calculatedPrice_def Let_def truthyNum_def split: option.splits)
qed

text \<open>
  Claim C9, amended: for every product with a non-negative price and every list of
  campaigns within the schema bounds, the effective price lies between 0 and the original
  price rounded to two decimals; it is at most the original price whenever the original
  price has at most two decimals.
\<close>
theorem effectivePrice_bounds:
  assumes "list_all offerWithinSchema offers" and "0 \<le> price p"
  shows "\<exists>e. effectivePrice (priceProduct offers p) = Some e \<and> 0 \<le> e \<and> e \<le> round2 (price p)
           \<and> (round2 (price p) = price p \<longrightarrow> e \<le> price p)"
proof -
  let ?m = "Min (insert (price p) (candidatePrices offers p))"
  have fin: "finite (insert (price p) (candidatePrices offers p))" by (simp add: finite_candidatePrices)
  have "\<forall>c \<in> insert (price p) (candidatePrices offers p). 0 \<le> c"
    using assms by (auto simp: candidatePrices_def list_all_iff intro: calculatedPrice_nonneg)
  then have lo: "0 \<le> ?m" using fin by simp
  have hi: "?m \<le> price p" using fin by simp
  have "effectivePrice (priceProduct offers p) = Some (round2 ?m)"
    by (simp add: priceProduct_effective priceLoop_effective)
  moreover have "0 \<le> round2 ?m" using lo by (rule round2_nonneg)
  moreover have "round2 ?m \<le> round2 (price p)" using hi by (rule round2_mono)
  ultimately show ?thesis by auto
qed

lemma amountOff_schema: "offerWithinSchema amountOff"
  unfolding offerWithinSchema_def amountOff_def plainOffer_def by simp

lemma priced9999_price: "price priced9999 = 9.999"
  by (simp add: priced9999_def plainProduct_def)

lemma amountOff_applies: "appliesToProduct amountOff priced9999"
  by (simp add: appliesToProduct_def amountOff_def plainOffer_def priced9999_def plainProduct_def)

lemma amountOff_calc: "calculatedPrice amountOff priced9999 = 9.998"
  using amountOff_applies
  by (simp add: calculatedPrice_def Let_def truthyNum_def directItem_def amountOff_def plainOffer_def priced9999_price)

lemma amountOff_effective: "effectivePrice (priceProduct [amountOff] priced9999) = Some 10"
proof -
  have "candidatePrices [amountOff] priced9999 = {9.998}"
    using amountOff_applies amountOff_calc by (auto simp: candidatePrices_def)
  then have m: "Min (insert (price priced9999) (candidatePrices [amountOff] priced9999)) = 9.998"
    by (simp add: priced9999_price)
  show ?thesis
    by (simp add: priceProduct_effective priceLoop_effective m round2_def mathRound_def)
qed

text \<open>
  Claim C9 as stated fails: a product priced 9.999 under a campaign taking 0.001 off has
  the effective price 10, above its original price.
\<close>
theorem effectivePrice_above_original:
  "list_all offerWithinSchema [amountOff] \<and> 0 \<le> price priced9999 \<and>
   effectivePrice (priceProduct [amountOff] priced9999) = Some 10 \<and>
   \<not> (10 \<le> price priced9999)"
  by (simp add: amountOff_schema amountOff_effective priced9999_price)

text \<open>
  The amended claim C9 at the product priced 9.99 under the 15 percent campaign.
\<close>
theorem effectivePrice_bounds_witness:
  "list_all offerWithinSchema [fifteenPercent] \<and> 0 \<le> price priced999 \<and>
   (\<exists>e. effectivePrice (priceProduct [fifteenPercent] priced999) = Some e \<and> 0 \<le> e \<and> e \<le> price priced999)"
proof -
  have "offerWithinSchema fifteenPercent"
    unfolding offerWithinSchema_def fifteenPercent_def plainOffer_def by simp
  then have s: "list_all offerWithinSchema [fifteenPercent]" by simp
  have p: "0 \<le> price priced999" by (simp add: priced999_price)
  have r: "round2 (price priced999) = price priced999"
    by (simp add: priced999_price round2_def mathRound_def)
  show ?thesis using effectivePrice_bounds [OF s p] s p r by auto
qed

section \<open>Verification: the try/catch of the calculator\<close>

lemma fallbackProduct_undiscounted:
  "effectivePrice (fallbackProduct x) = originalPrice (fallbackProduct x) \<and>
   \<not> hasOffer (fallbackProduct x)"
  by (cases x) (simp_all add: fallbackProduct_def)

lemma fallbackProduct_object:
  "originalPrice (fallbackProduct (ProductObject p)) = Some (price p)"
  by (simp add: fallbackProduct_def)

text \<open>
  Claim C10: \<^verbatim>\<open>calculateEffectivePrices\<close> never propagates an exception: it always returns a
  list, and whenever its \<^verbatim>\<open>try\<close> block fails it returns one entry per input product, each
  with \<^verbatim>\<open>effectivePrice\<close> equal to \<^verbatim>\<open>originalPrice\<close> (the product's own price for a product
  object) and \<^verbatim>\<open>hasOffer\<close> false.
\<close>
theorem calculateEffectivePrices_never_throws:
  "(\<exists>priced. calculateEffectivePrices db now products branchId userLocation = Inr priced)
   \<and> (\<forall>e. tryCalculate db now products branchId userLocation = Inl e \<longrightarrow>
        (\<exists>priced. calculateEffectivePrices db now products branchId userLocation = Inr priced
           \<and> length priced = length products
           \<and> (\<forall>i < length products.
                 effectivePrice (priced ! i) = originalPrice (priced ! i)
                 \<and> \<not> hasOffer (priced ! i)
                 \<and> (\<forall>p. products ! i = ProductObject p \<longrightarrow>
                       w_id (priced ! i) = Some (p_id p) \<and>
                       originalPrice (priced ! i) = Some (price p)))))"
proof -
  have a: "\<exists>priced. calculateEffectivePrices db now products branchId userLocation = Inr priced"
    by (simp add: calculateEffectivePrices_def split: sum.splits)
  have b: "\<exists>priced. calculateEffectivePrices db now products branchId userLocation = Inr priced
           \<and> length priced = length products
           \<and> (\<forall>i < length products.
                 effectivePrice (priced ! i) = originalPrice (priced ! i)
                 \<and> \<not> hasOffer (priced ! i)
                 \<and> (\<forall>p. products ! i = ProductObject p \<longrightarrow>
                       w_id (priced ! i) = Some (p_id p) \<and>
                       originalPrice (priced ! i) = Some (price p)))"
    if "tryCalculate db now products branchId userLocation = Inl e" for e
  proof -
    have "calculateEffectivePrices db now products branchId userLocation
            = Inr (map fallbackProduct products)"
      using that by (simp add: calculateEffectivePrices_def)
    moreover have "\<forall>i < length products.
                 effectivePrice (map fallbackProduct products ! i) = originalPrice (map fallbackProduct products ! i)
                 \<and> \<not> hasOffer (map fallbackProduct products ! i)
                 \<and> (\<forall>p. products ! i = ProductObject p \<longrightarrow>
                       w_id (map fallbackProduct products ! i) = Some (p_id p) \<and>
                       originalPrice (map fallbackProduct products ! i) = Some (price p))"
      by (simp add: fallbackProduct_undiscounted) (simp add: fallbackProduct_def)
    ultimately show ?thesis by simp
  qed
  show ?thesis using a b by blast
qed

lemma offline_fails: "tryCalculate offlineDb 0 [ProductObject validProduct] None None = Inl DbError"
  by (simp add: tryCalculate_def convertibleId_def truthyStr_def offlineDb_def)

lemma badBranch_fails:
  "tryCalculate db now [ProductObject plainProduct] (Some ''branch-7'') None = Inl BSONError"
  by (simp add: tryCalculate_def truthyStr_def validObjectId_def)

text \<open>
  Claim C10 at a store that rejects the query: the product priced 20 comes back at 20.
\<close>
theorem calculateEffectivePrices_never_throws_witness:
  "tryCalculate offlineDb 0 [ProductObject validProduct] None None = Inl DbError \<and>
   (\<exists>priced. calculateEffectivePrices offlineDb 0 [ProductObject validProduct] None None = Inr priced \<and>
      length priced = 1 \<and> effectivePrice (priced ! 0) = Some 20 \<and> \<not> hasOffer (priced ! 0))"
proof -
  from calculateEffectivePrices_never_throws [of offlineDb 0 "[ProductObject validProduct]" None None]
    offline_fails
  obtain priced where p: "calculateEffectivePrices offlineDb 0 [ProductObject validProduct] None None = Inr priced"
    "length priced = length [ProductObject validProduct]"
    "\<forall>i < length [ProductObject validProduct].
                 effectivePrice (priced ! i) = originalPrice (priced ! i)
                 \<and> \<not> hasOffer (priced ! i)
                 \<and> (\<forall>p. [ProductObject validProduct] ! i = ProductObject p \<longrightarrow>
                       w_id (priced ! i) = Some (p_id p) \<and>
                       originalPrice (priced ! i) = Some (price p))"
    by blast
  from p(3) have "effectivePrice (priced ! 0) = Some (price validProduct) \<and> \<not> hasOffer (priced ! 0)"
    by simp
  then show ?thesis using p(1,2) offline_fails by (simp add: validProduct_def plainProduct_def)
qed

section \<open>Verification: sorting and stacking\<close>

lemma existingOffers_upd:
  "existingOffers (m(k \<mapsto> v)) p = (if p = k then v else existingOffers m p)"
  by (simp add: existingOffers_def)

lemma itemProducts_iff:
  "p \<in> itemProducts offer \<longleftrightarrow>
     (\<exists>item \<in> set (items offer). \<exists>pr. product item = Some pr \<and> p_id pr = p)"
proof -
  have "set (case product item of None \<Rightarrow> [] | Some pr \<Rightarrow> [p_id pr]) =
          {q. \<exists>pr. product item = Some pr \<and> p_id pr = q}" for item :: "IProduct option IOfferItem"
    by (cases "product item") auto
  then show ?thesis by (auto simp add: itemProducts_def)
qed

lemma itemIds_simps [simp]:
  "itemIds [] = {}"
  "itemIds (item # rest) = (case product item of None \<Rightarrow> {} | Some pr \<Rightarrow> {p_id pr}) \<union> itemIds rest"
  unfolding itemIds_def by (cases "product item"; auto)+

lemma itemProducts_itemIds: "itemProducts offer = itemIds (items offer)"
  unfolding itemIds_def using itemProducts_iff by blast

lemma trackStackable_claims:
  "trackStackable offer its m = Inr m' \<Longrightarrow>
   set (existingOffers m' p) = set (existingOffers m p) \<union> (if p \<in> itemIds its then {offer} else {})"
proof (induction its arbitrary: m)
  case Nil
  then show ?case by simp
next
  case (Cons item rest)
  then obtain pr where pr: "product item = Some pr"
    by (cases "product item") auto
  let ?m1 = "m(p_id pr \<mapsto> existingOffers m (p_id pr) @ [offer])"
  from pr Cons.prems have "trackStackable offer rest ?m1 = Inr m'"
    by simp
  from Cons.IH [OF this]
  have ih: "set (existingOffers m' p) =
              set (existingOffers ?m1 p) \<union> (if p \<in> itemIds rest then {offer} else {})" .
  have m1: "set (existingOffers ?m1 p) =
              set (existingOffers m p) \<union> (if p = p_id pr then {offer} else {})"
    by (simp add: existingOffers_upd)
  have ids: "p \<in> itemIds (item # rest) \<longleftrightarrow> p = p_id pr \<or> p \<in> itemIds rest"
    using pr by simp
  show ?case unfolding ih m1 ids by auto
qed

lemma replaceClaims_claims:
  "replaceClaims offer its m = Inr m' \<Longrightarrow>
   existingOffers m' p = (if p \<in> itemIds its then [offer] else existingOffers m p)"
proof (induction its arbitrary: m)
  case Nil
  then show ?case by simp
next
  case (Cons item rest)
  then obtain pr where pr: "product item = Some pr"
    by (cases "product item") auto
  let ?m1 = "m(p_id pr \<mapsto> [offer])"
  from pr Cons.prems have "replaceClaims offer rest ?m1 = Inr m'"
    by simp
  from Cons.IH [OF this]
  have ih: "existingOffers m' p = (if p \<in> itemIds rest then [offer] else existingOffers ?m1 p)" .
  have m1: "existingOffers ?m1 p = (if p = p_id pr then [offer] else existingOffers m p)"
    by (simp add: existingOffers_upd)
  have ids: "p \<in> itemIds (item # rest) \<longleftrightarrow> p = p_id pr \<or> p \<in> itemIds rest"
    using pr by simp
  show ?case unfolding ih m1 ids by simp
qed

lemma canApply_True:
  "canApply offer its m = Inr True \<Longrightarrow> \<forall>p \<in> itemIds its. \<not> blocked offer m p"
proof (induction its)
  case Nil
  then show ?case by simp
next
  case (Cons item rest)
  then obtain pr where pr: "product item = Some pr"
    by (cases "product item") auto
  with Cons show ?case
    by (auto simp: blocked_def list_ex_iff split: if_splits)
qed

lemma canApply_False:
  "canApply offer its m = Inr False \<Longrightarrow> \<exists>p \<in> itemIds its. blocked offer m p"
proof (induction its)
  case Nil
  then show ?case by simp
next
  case (Cons item rest)
  then obtain pr where pr: "product item = Some pr"
    by (cases "product item") auto
  with Cons show ?case
    by (auto simp: blocked_def list_ex_iff split: if_splits)
qed

lemma exclusive_snoc:
  "exclusive (xs @ [x]) \<longleftrightarrow>
     exclusive xs \<and>
     (\<not> stackable x \<longrightarrow> (\<forall>a \<in> set xs. \<not> stackable a \<longrightarrow> itemProducts a \<inter> itemProducts x = {}))"
proof -
  have "exclusive (xs @ [x]) \<longleftrightarrow>
     (\<forall>j < length xs. \<forall>i < j. \<not> stackable (xs ! i) \<and> \<not> stackable (xs ! j) \<longrightarrow>
        itemProducts (xs ! i) \<inter> itemProducts (xs ! j) = {}) \<and>
     (\<forall>i < length xs. \<not> stackable (xs ! i) \<and> \<not> stackable x \<longrightarrow>
        itemProducts (xs ! i) \<inter> itemProducts x = {})"
    unfolding exclusive_def
    by (auto simp: nth_append less_Suc_eq all_conj_distrib)
  then show ?thesis
    unfolding exclusive_def by (auto simp: all_set_conv_all_nth)
qed

lemma stackingStep_inv:
  assumes inv: "stackingInv st"
    and prio: "\<forall>a \<in> set (appliedOffers st). priority offer \<le> priority a"
    and step: "stackingStep st offer = Inr st'"
  shows "stackingInv st'"
proof (cases "stackable offer")
  case True
  with step obtain m where m: "trackStackable offer (items offer) (claimsOf st) = Inr m"
    and st': "st' = \<lparr> appliedOffers = appliedOffers st @ [offer], claimsOf = m \<rparr>"
    by (auto simp: stackingStep_def split: sum.splits)
  note cl = trackStackable_claims [OF m]
  show ?thesis
    using inv True unfolding stackingInv_def st'
    by (auto simp: cl exclusive_snoc itemProducts_itemIds split: if_splits)
next
  case False
  show ?thesis
  proof (cases "canApply offer (items offer) (claimsOf st)")
    case (Inl e)
    with step False show ?thesis by (simp add: stackingStep_def)
  next
    case (Inr ok)
    show ?thesis
    proof (cases ok)
      case False
      with Inr step \<open>\<not> stackable offer\<close> have "st' = st" by (simp add: stackingStep_def)
      then show ?thesis using inv by simp
    next
      case True
      with Inr step \<open>\<not> stackable offer\<close> obtain m
        where m: "replaceClaims offer (items offer) (claimsOf st) = Inr m"
          and st': "st' = \<lparr> appliedOffers = appliedOffers st @ [offer], claimsOf = m \<rparr>"
        by (auto simp: stackingStep_def split: sum.splits)
      note cl = replaceClaims_claims [OF m]
      have free: "\<forall>p \<in> itemProducts offer. \<not> blocked offer (claimsOf st) p"
        using canApply_True Inr True by (simp add: itemProducts_itemIds)
      have disj: "\<forall>a \<in> set (appliedOffers st). \<not> stackable a \<longrightarrow>
                    itemProducts a \<inter> itemProducts offer = {}"
      proof (intro ballI impI)
        fix a assume a: "a \<in> set (appliedOffers st)" "\<not> stackable a"
        show "itemProducts a \<inter> itemProducts offer = {}"
        proof (rule ccontr)
          assume "itemProducts a \<inter> itemProducts offer \<noteq> {}"
          then obtain p where p: "p \<in> itemProducts a" "p \<in> itemProducts offer" by auto
          have "a \<in> set (existingOffers (claimsOf st) p)"
            using inv a p(1) by (auto simp: stackingInv_def)
          then have "blocked offer (claimsOf st) p"
            using a prio by (auto simp: blocked_def)
          then show False using free p(2) by simp
        qed
      qed
      have a1: "\<forall>a \<in> set (appliedOffers st'). \<not> stackable a \<longrightarrow>
         (\<forall>p \<in> itemProducts a. a \<in> set (existingOffers (claimsOf st') p))"
      proof (intro ballI impI)
        fix a p assume a: "a \<in> set (appliedOffers st')" "\<not> stackable a" and p: "p \<in> itemProducts a"
        show "a \<in> set (existingOffers (claimsOf st') p)"
        proof (cases "p \<in> itemProducts offer")
          case True
          then have "a \<notin> set (appliedOffers st)" using disj a(2) p by auto
          then have "a = offer" using a(1) st' by simp
          then show ?thesis using True by (simp add: st' cl itemProducts_itemIds)
        next
          case False
          then have "a \<noteq> offer" using p by auto
          then have "a \<in> set (appliedOffers st)" using a(1) st' by simp
          then have "a \<in> set (existingOffers (claimsOf st) p)"
            using inv a(2) p by (auto simp: stackingInv_def)
          then show ?thesis using False by (simp add: st' cl itemProducts_itemIds)
        qed
      qed
      have a2: "\<forall>p. \<forall>e \<in> set (existingOffers (claimsOf st') p).
         e \<in> set (appliedOffers st') \<and> p \<in> itemProducts e"
        using inv unfolding stackingInv_def st'
        by (auto simp: cl itemProducts_itemIds split: if_splits)
      have a3: "exclusive (appliedOffers st')"
        using inv disj unfolding stackingInv_def st' by (simp add: exclusive_snoc)
      show ?thesis unfolding stackingInv_def using a1 a2 a3 by blast
    qed
  qed
qed

lemma stackingStep_applied:
  "stackingStep st offer = Inr st' \<Longrightarrow>
   appliedOffers st' = appliedOffers st \<or> appliedOffers st' = appliedOffers st @ [offer]"
  by (auto simp: stackingStep_def split: sum.splits if_splits bool.splits)

lemma stackingLoop_inv:
  "sorted_wrt (\<lambda>a b. priority b \<le> priority a) offers \<Longrightarrow>
   stackingInv st \<Longrightarrow>
   \<forall>a \<in> set (appliedOffers st). \<forall>x \<in> set offers. priority x \<le> priority a \<Longrightarrow>
   stackingLoop offers st = Inr st' \<Longrightarrow> stackingInv st'"
proof (induction offers arbitrary: st)
  case Nil
  then show ?case by simp
next
  case (Cons offer rest)
  from Cons.prems(4) obtain st1 where s1: "stackingStep st offer = Inr st1"
    and l: "stackingLoop rest st1 = Inr st'"
    by (auto split: sum.splits)
  have inv1: "stackingInv st1"
    using stackingStep_inv [OF Cons.prems(2) _ s1] Cons.prems(3) by simp
  have "\<forall>a \<in> set (appliedOffers st1). \<forall>x \<in> set rest. priority x \<le> priority a"
    using stackingStep_applied [OF s1] Cons.prems(1,3) by auto
  with Cons.IH [OF _ inv1 _ l] Cons.prems(1) show ?case by simp
qed

lemma stackingInv_init: "stackingInv \<lparr> appliedOffers = [], claimsOf = Map.empty \<rparr>"
  by (simp add: stackingInv_def exclusive_def existingOffers_def)

lemma compareOffers_le: "compareOffers x y \<le> 0 \<Longrightarrow> priority y \<le> priority x"
  by (simp add: compareOffers_def split: if_splits)

lemma compareOffers_gt: "\<not> compareOffers x y \<le> 0 \<Longrightarrow> priority x \<le> priority y"
  by (simp add: compareOffers_def split: if_splits)

lemma set_insertOffer: "set (insertOffer x ys) = insert x (set ys)"
  by (induction ys) auto

lemma mset_insertOffer: "mset (insertOffer x ys) = add_mset x (mset ys)"
  by (induction ys) auto

lemma sorted_insertOffer:
  "sorted_wrt (\<lambda>a b. priority b \<le> priority a) ys \<Longrightarrow>
   sorted_wrt (\<lambda>a b. priority b \<le> priority a) (insertOffer x ys)"
proof (induction ys)
  case Nil
  then show ?case by simp
next
  case (Cons y ys)
  show ?case
  proof (cases "compareOffers x y \<le> 0")
    case True
    then have "priority y \<le> priority x" by (rule compareOffers_le)
    then show ?thesis using True Cons.prems by fastforce
  next
    case False
    then have "priority x \<le> priority y" by (rule compareOffers_gt)
    then show ?thesis using False Cons by (auto simp: set_insertOffer)
  qed
qed

lemma mset_sortOffers: "mset (sortOffers offers) = mset offers"
  unfolding sortOffers_def by (induction offers) (simp_all add: mset_insertOffer)

lemma set_sortOffers: "set (sortOffers offers) = set offers"
  using mset_sortOffers by (metis set_mset_mset)

lemma sorted_sortOffers: "sorted_wrt (\<lambda>a b. priority b \<le> priority a) (sortOffers offers)"
  unfolding sortOffers_def by (induction offers) (simp_all add: sorted_insertOffer)

lemma applyStacking_exclusive_sorted:
  assumes "sorted_wrt (\<lambda>a b. priority b \<le> priority a) offers"
    and "stackingLoop offers \<lparr> appliedOffers = [], claimsOf = Map.empty \<rparr> = Inr st"
  shows "exclusive (appliedOffers st)"
  using stackingLoop_inv [OF assms(1) stackingInv_init _ assms(2)]
  by (simp add: stackingInv_def)

lemma exclusive_distinct_members:
  assumes "exclusive xs" "a \<in> set xs" "b \<in> set xs" "a \<noteq> b" "\<not> stackable a" "\<not> stackable b"
  shows "itemProducts a \<inter> itemProducts b = {}"
proof -
  obtain i j where i: "i < length xs" "xs ! i = a" and j: "j < length xs" "xs ! j = b"
    using assms(2,3) by (auto simp: in_set_conv_nth)
  have "i \<noteq> j" using i j assms(4) by auto
  then consider "i < j" | "j < i" by linarith
  then show ?thesis
  proof cases
    case 1
    then show ?thesis using assms(1,5,6) i j unfolding exclusive_def by blast
  next
    case 2
    then have "itemProducts b \<inter> itemProducts a = {}"
      using assms(1,5,6) i j unfolding exclusive_def by blast
    then show ?thesis by blast
  qed
qed

lemma stackingLoop_append:
  "stackingLoop (xs @ ys) st =
     (case stackingLoop xs st of Inl e \<Rightarrow> Inl e | Inr st1 \<Rightarrow> stackingLoop ys st1)"
  by (induction xs arbitrary: st) (auto split: sum.splits)

lemma stackingLoop_applied:
  "stackingLoop xs st = Inr st' \<Longrightarrow>
   set (appliedOffers st) \<subseteq> set (appliedOffers st') \<and>
   set (appliedOffers st') \<subseteq> set (appliedOffers st) \<union> set xs"
proof (induction xs arbitrary: st)
  case Nil
  then show ?case by simp
next
  case (Cons x xs)
  from Cons.prems obtain st1 where s1: "stackingStep st x = Inr st1"
    and l: "stackingLoop xs st1 = Inr st'"
    by (auto split: sum.splits)
  from stackingStep_applied [OF s1] Cons.IH [OF l] show ?case by auto
qed

lemma trackStackable_total:
  "\<forall>item \<in> set its. product item \<noteq> None \<Longrightarrow> \<exists>m'. trackStackable offer its m = Inr m'"
  by (induction its arbitrary: m) auto

lemma replaceClaims_total:
  "\<forall>item \<in> set its. product item \<noteq> None \<Longrightarrow> \<exists>m'. replaceClaims offer its m = Inr m'"
  by (induction its arbitrary: m) auto

lemma canApply_total:
  "\<forall>item \<in> set its. product item \<noteq> None \<Longrightarrow> \<exists>ok. canApply offer its m = Inr ok"
  by (induction its) auto

lemma stackingStep_total:
  assumes "\<forall>item \<in> set (items offer). product item \<noteq> None"
  shows "\<exists>st'. stackingStep st offer = Inr st'"
proof -
  obtain m1 where m1: "trackStackable offer (items offer) (claimsOf st) = Inr m1"
    using trackStackable_total [OF assms] by blast
  obtain m2 where m2: "replaceClaims offer (items offer) (claimsOf st) = Inr m2"
    using replaceClaims_total [OF assms] by blast
  obtain ok where ok: "canApply offer (items offer) (claimsOf st) = Inr ok"
    using canApply_total [OF assms] by blast
  show ?thesis by (cases ok) (simp_all add: stackingStep_def m1 m2 ok)
qed

lemma stackingLoop_total:
  "\<forall>offer \<in> set offers. \<forall>item \<in> set (items offer). product item \<noteq> None \<Longrightarrow>
   \<exists>st'. stackingLoop offers st = Inr st'"
proof (induction offers arbitrary: st)
  case Nil
  then show ?case by simp
next
  case (Cons offer rest)
  then obtain st1 where "stackingStep st offer = Inr st1"
    using stackingStep_total [of offer st] by auto
  then show ?case using Cons by simp
qed

lemma applyStacking_total:
  assumes "\<forall>offer \<in> set offers. \<forall>item \<in> set (items offer). product item \<noteq> None"
  shows "\<exists>applied. applyStacking offers = Inr applied"
proof -
  have "\<forall>offer \<in> set (sortOffers offers). \<forall>item \<in> set (items offer). product item \<noteq> None"
    using assms by (simp add: set_sortOffers)
  from stackingLoop_total [OF this]
  obtain st where "stackingLoop (sortOffers offers) \<lparr> appliedOffers = [], claimsOf = Map.empty \<rparr> = Inr st"
    by blast
  then show ?thesis by (simp add: applyStacking_def)
qed

lemma applyStacking_exclusive:
  assumes "applyStacking offers = Inr applied"
  shows "exclusive applied"
proof -
  from assms obtain st where
    st: "stackingLoop (sortOffers offers) \<lparr> appliedOffers = [], claimsOf = Map.empty \<rparr> = Inr st"
    and a: "applied = appliedOffers st"
    by (auto simp: applyStacking_def split: sum.splits)
  show ?thesis unfolding a by (rule applyStacking_exclusive_sorted [OF sorted_sortOffers st])
qed

lemma accepted_unblocked:
  assumes "\<not> stackable offer" "stackingStep st offer = Inr st'"
    "appliedOffers st' = appliedOffers st @ [offer]"
  shows "\<forall>p \<in> itemProducts offer. \<forall>e \<in> set (existingOffers (claimsOf st) p).
           stackable e \<or> priority e < priority offer"
proof -
  have "canApply offer (items offer) (claimsOf st) = Inr True"
    using assms by (auto simp: stackingStep_def split: sum.splits bool.splits)
  from canApply_True [OF this] show ?thesis
    unfolding blocked_def itemProducts_itemIds by (meson not_le)
qed

lemma first_unblocked_accepted:
  assumes sorted: "sorted_wrt (\<lambda>a b. priority b \<le> priority a) xs"
    and run: "stackingLoop xs \<lparr> appliedOffers = [], claimsOf = Map.empty \<rparr> = Inr st"
    and H: "H \<in> set xs" "\<not> stackable H"
    and alone: "\<forall>X \<in> set xs. \<not> stackable X \<and> priority H \<le> priority X \<and>
                  itemProducts X \<inter> itemProducts H \<noteq> {} \<longrightarrow> X = H"
  shows "H \<in> set (appliedOffers st)"
proof -
  let ?init = "\<lparr> appliedOffers = [], claimsOf = Map.empty \<rparr>"
  obtain pre post where split: "xs = pre @ H # post" and fresh: "H \<notin> set pre"
    using H(1) by (meson split_list_first)
  from run obtain st1 st2 where pre: "stackingLoop pre ?init = Inr st1"
    and step: "stackingStep st1 H = Inr st2"
    and post: "stackingLoop post st2 = Inr st"
    unfolding split by (auto simp: stackingLoop_append split: sum.splits)
  have spre: "sorted_wrt (\<lambda>a b. priority b \<le> priority a) pre"
    using sorted unfolding split by (simp add: sorted_wrt_append)
  have inv1: "stackingInv st1"
    using stackingLoop_inv [OF spre stackingInv_init _ pre] by simp
  have sub1: "set (appliedOffers st1) \<subseteq> set pre"
    using stackingLoop_applied [OF pre] by simp
  have "canApply H (items H) (claimsOf st1) \<noteq> Inr False"
  proof
    assume "canApply H (items H) (claimsOf st1) = Inr False"
    from canApply_False [OF this] obtain p e where p: "p \<in> itemProducts H"
      and e: "e \<in> set (existingOffers (claimsOf st1) p)" "\<not> stackable e" "priority H \<le> priority e"
      by (auto simp: blocked_def itemProducts_itemIds)
    have e1: "e \<in> set (appliedOffers st1)" and e2: "p \<in> itemProducts e"
      using inv1 e(1) by (auto simp: stackingInv_def)
    have "e \<in> set xs" using e1 sub1 split by auto
    moreover have "itemProducts e \<inter> itemProducts H \<noteq> {}" using p e2 by auto
    ultimately have "e = H" using alone e(2,3) by blast
    then show False using e1 sub1 fresh by auto
  qed
  then have "appliedOffers st2 = appliedOffers st1 @ [H]"
    using step H(2) by (auto simp: stackingStep_def split: sum.splits bool.splits)
  then have "H \<in> set (appliedOffers st2)" by simp
  then show ?thesis using stackingLoop_applied [OF post] by auto
qed

lemma itemFor_product [simp]: "product (itemFor p) = Some (plainProduct \<lparr> p_id := p \<rparr>)"
  by (simp add: itemFor_def)

lemma campaign_fields [simp]:
  "priority campaignX = 10" "priority campaignH = 5" "priority campaignL = 1"
  "stackable campaignX = False" "stackable campaignH = False" "stackable campaignL = False"
  "items campaignX = [itemFor ''q'']" "items campaignH = [itemFor ''p'', itemFor ''q'']"
  "items campaignL = [itemFor ''p'']"
  by (simp_all add: campaignX_def campaignH_def campaignL_def plainOffer_def)

lemma campaign_claims [simp]:
  "itemProducts campaignX = {''q''}" "itemProducts campaignH = {''p'', ''q''}"
  "itemProducts campaignL = {''p''}"
  by (simp_all add: itemProducts_def)

lemma sort_LHX: "sortOffers [campaignL, campaignH, campaignX] = [campaignX, campaignH, campaignL]"
  by (simp add: sortOffers_def compareOffers_def)

lemma stack_XHL:
  "stackingLoop [campaignX, campaignH, campaignL] \<lparr> appliedOffers = [], claimsOf = Map.empty \<rparr>
     = Inr \<lparr> appliedOffers = [campaignX, campaignL],
             claimsOf = [''q'' \<mapsto> [campaignX], ''p'' \<mapsto> [campaignL]] \<rparr>"
  by (simp add: stackingStep_def existingOffers_def)

lemma apply_LHX: "applyStacking [campaignL, campaignH, campaignX] = Inr [campaignX, campaignL]"
  unfolding applyStacking_def sort_LHX stack_XHL by simp

lemma sort_LH: "sortOffers [campaignL, campaignH] = [campaignH, campaignL]"
  by (simp add: sortOffers_def compareOffers_def)

lemma apply_LH: "applyStacking [campaignL, campaignH] = Inr [campaignH]"
  by (simp add: applyStacking_def sort_LH stackingStep_def existingOffers_def)

lemma sort_LX: "sortOffers [campaignL, campaignX] = [campaignX, campaignL]"
  by (simp add: sortOffers_def compareOffers_def)

lemma apply_LX: "applyStacking [campaignL, campaignX] = Inr [campaignX, campaignL]"
  by (simp add: applyStacking_def sort_LX stackingStep_def existingOffers_def)

lemma cover_fields [simp]:
  "priority coverHigh = 5" "priority coverLow = 1"
  "stackable coverHigh = False" "stackable coverLow = False"
  "items coverHigh = [itemFor ''a'']" "items coverLow = [itemFor ''b'']"
  "productIds coverHigh = [''p1'']" "productIds coverLow = []"
  "categoryIds coverLow = [''cat1'']"
  by (simp_all add: coverHigh_def coverLow_def plainOffer_def)

lemma cover_applies:
  "appliesToProduct coverHigh plainProduct" "appliesToProduct coverLow plainProduct"
  by (simp_all add: appliesToProduct_def directItem_def productCategoryId_def plainProduct_def)

lemma cover_items:
  "itemProducts coverHigh = {''a''}" "itemProducts coverLow = {''b''}"
  by (simp_all add: itemProducts_def)

lemma sort_cover:
  "sortOffers [coverLow, coverHigh] = [coverHigh, coverLow]"
  "sortOffers [coverHigh, coverLow] = [coverHigh, coverLow]"
  by (simp_all add: sortOffers_def compareOffers_def)

lemma apply_cover:
  "applyStacking [coverLow, coverHigh] = Inr [coverHigh, coverLow]"
  "applyStacking [coverHigh, coverLow] = Inr [coverHigh, coverLow]"
  by (simp_all add: applyStacking_def sort_cover stackingStep_def existingOffers_def)

lemma cover_distinct: "coverHigh \<noteq> coverLow"
  by (auto dest: arg_cong [where f = priority])

text \<open>
  Claim C3 as stated fails: two non-stackable campaigns both cover product \<^verbatim>\<open>p1\<close>, one
  through its \<^verbatim>\<open>productIds\<close> and one through its \<^verbatim>\<open>categoryIds\<close>, and the resolver outputs
  both. The stacking loop enters a campaign in its map under the products of the campaign's
  items only.
\<close>
theorem covering_campaigns_both_output:
  "\<not> stackable coverHigh \<and> \<not> stackable coverLow \<and> coverHigh \<noteq> coverLow \<and>
   appliesToProduct coverHigh plainProduct \<and> appliesToProduct coverLow plainProduct \<and>
   applyStacking [coverHigh, coverLow] = Inr [coverHigh, coverLow]"
  by (simp add: cover_applies apply_cover cover_distinct)

text \<open>
  Claim C3, amended: for every input list of campaigns, the list output by the stacking
  resolver (the sort by descending priority followed by the stacking loop) never holds two
  non-stackable campaigns whose items list a common product; a non-stackable campaign is
  accepted by an iteration only if, on every product of its items, no campaign already
  entered for that product is non-stackable with a priority greater than or equal to its
  own. The resolver returns a list whenever every item of every campaign refers to an
  existing product. Products that a campaign covers through \<^verbatim>\<open>productIds\<close> or \<^verbatim>\<open>categoryIds\<close>
  alone do not take part.
\<close>
theorem stacking_exclusive:
  "(\<forall>applied. applyStacking offers = Inr applied \<longrightarrow>
      (\<forall>j < length applied. \<forall>i < j.
         \<not> stackable (applied ! i) \<and> \<not> stackable (applied ! j) \<longrightarrow>
         itemProducts (applied ! i) \<inter> itemProducts (applied ! j) = {}))
   \<and> (\<forall>st st' offer. \<not> stackable offer \<and> stackingStep st offer = Inr st' \<and>
         appliedOffers st' = appliedOffers st @ [offer] \<longrightarrow>
         (\<forall>p \<in> itemProducts offer. \<forall>e \<in> set (existingOffers (claimsOf st) p).
            stackable e \<or> priority e < priority offer))
   \<and> ((\<forall>offer \<in> set offers. \<forall>item \<in> set (items offer). product item \<noteq> None) \<longrightarrow>
        (\<exists>applied. applyStacking offers = Inr applied))"
proof -
  have "\<forall>j < length applied. \<forall>i < j.
         \<not> stackable (applied ! i) \<and> \<not> stackable (applied ! j) \<longrightarrow>
         itemProducts (applied ! i) \<inter> itemProducts (applied ! j) = {}"
    if "applyStacking offers = Inr applied" for applied
    using applyStacking_exclusive [OF that] by (simp add: exclusive_def)
  moreover have "\<forall>p \<in> itemProducts offer. \<forall>e \<in> set (existingOffers (claimsOf st) p).
            stackable e \<or> priority e < priority offer"
    if "\<not> stackable offer \<and> stackingStep st offer = Inr st' \<and>
         appliedOffers st' = appliedOffers st @ [offer]" for st st' offer
    using that accepted_unblocked by blast
  moreover have "\<exists>applied. applyStacking offers = Inr applied"
    if "\<forall>offer \<in> set offers. \<forall>item \<in> set (items offer). product item \<noteq> None"
    using that by (rule applyStacking_total)
  ultimately show ?thesis by blast
qed

text \<open>
  The amended claim C3 at the campaigns L and X: both are output and their items have no
  product in common.
\<close>
theorem stacking_exclusive_witness:
  "applyStacking [campaignL, campaignX] = Inr [campaignX, campaignL] \<and>
   \<not> stackable campaignX \<and> \<not> stackable campaignL \<and>
   itemProducts campaignX \<inter> itemProducts campaignL = {}"
proof -
  have "\<forall>j < length [campaignX, campaignL]. \<forall>i < j.
         \<not> stackable ([campaignX, campaignL] ! i) \<and> \<not> stackable ([campaignX, campaignL] ! j) \<longrightarrow>
         itemProducts ([campaignX, campaignL] ! i) \<inter> itemProducts ([campaignX, campaignL] ! j) = {}"
    using stacking_exclusive [of "[campaignL, campaignX]"] apply_LX by blast
  then have "\<not> stackable ([campaignX, campaignL] ! 0) \<and> \<not> stackable ([campaignX, campaignL] ! 1) \<longrightarrow>
         itemProducts ([campaignX, campaignL] ! 0) \<inter> itemProducts ([campaignX, campaignL] ! 1) = {}"
    by (metis One_nat_def length_Cons less_Suc0 lessI list.size(3) zero_less_one)
  then show ?thesis using apply_LX by simp
qed

text \<open>
  Claim C4 as stated fails, in two ways. H and L are non-stackable, both list product p in
  their items, and H has the higher priority; with X in the list, H is rejected (X holds
  product q) and L is output. And two non-stackable campaigns of different priorities that
  contest product \<^verbatim>\<open>p1\<close>, one through its \<^verbatim>\<open>productIds\<close> and one through its
  \<^verbatim>\<open>categoryIds\<close>, with items on other products, are both output, in either order of the
  input: the lower-priority one is not left out.
\<close>
theorem higher_priority_not_always_output:
  "(campaignH \<in> set [campaignL, campaignH, campaignX] \<and>
    campaignL \<in> set [campaignL, campaignH, campaignX] \<and>
    \<not> stackable campaignH \<and> \<not> stackable campaignL \<and>
    priority campaignL < priority campaignH \<and>
    itemProducts campaignH \<inter> itemProducts campaignL \<noteq> {} \<and>
    applyStacking [campaignL, campaignH, campaignX] = Inr [campaignX, campaignL] \<and>
    campaignH \<notin> set [campaignX, campaignL] \<and> campaignL \<in> set [campaignX, campaignL])
   \<and> (\<not> stackable coverHigh \<and> \<not> stackable coverLow \<and>
       priority coverLow < priority coverHigh \<and>
       appliesToProduct coverHigh plainProduct \<and> appliesToProduct coverLow plainProduct \<and>
       itemProducts coverHigh \<inter> itemProducts coverLow = {} \<and>
       applyStacking [coverLow, coverHigh] = Inr [coverHigh, coverLow] \<and>
       applyStacking [coverHigh, coverLow] = Inr [coverHigh, coverLow] \<and>
       coverLow \<in> set [coverHigh, coverLow])"
proof -
  have "campaignH \<noteq> campaignX" "campaignH \<noteq> campaignL"
    by (auto dest: arg_cong [where f = priority])
  then show ?thesis by (simp add: apply_LHX cover_applies apply_cover cover_items)
qed

text \<open>
  Claim C4, amended: for two non-stackable campaigns whose items list a common product, one
  of strictly higher priority than the other, and for every ordering of the input list, the
  resolver never outputs both; and whenever no other non-stackable campaign of equal or
  higher priority has an item on a product of the higher-priority campaign's items, the
  resolver outputs the higher-priority campaign and not the lower-priority one. Campaigns
  that contest a product through \<^verbatim>\<open>productIds\<close> or \<^verbatim>\<open>categoryIds\<close> alone are outside this
  statement.
\<close>
theorem stacking_priority:
  assumes "H \<in> set offers" and "L \<in> set offers"
    and "\<not> stackable H" and "\<not> stackable L"
    and "priority L < priority H"
    and "itemProducts H \<inter> itemProducts L \<noteq> {}"
    and "mset arranged = mset offers"
    and "applyStacking arranged = Inr applied"
  shows "\<not> (H \<in> set applied \<and> L \<in> set applied) \<and>
         ((\<forall>X \<in> set offers. \<not> stackable X \<and> priority H \<le> priority X \<and>
              itemProducts X \<inter> itemProducts H \<noteq> {} \<longrightarrow> X = H)
            \<longrightarrow> H \<in> set applied \<and> L \<notin> set applied)"
proof -
  have sets: "set arranged = set offers" using assms(7) by (metis set_mset_mset)
  from assms(8) obtain st where
    st: "stackingLoop (sortOffers arranged) \<lparr> appliedOffers = [], claimsOf = Map.empty \<rparr> = Inr st"
    and a: "applied = appliedOffers st"
    by (auto simp: applyStacking_def split: sum.splits)
  have ex: "exclusive applied" using assms(8) by (rule applyStacking_exclusive)
  have ne: "H \<noteq> L" using assms(5) by auto
  have both: "\<not> (H \<in> set applied \<and> L \<in> set applied)"
    using exclusive_distinct_members [OF ex _ _ ne assms(3,4)] assms(6) by blast
  have "H \<in> set applied"
    if alone: "\<forall>X \<in> set offers. \<not> stackable X \<and> priority H \<le> priority X \<and>
              itemProducts X \<inter> itemProducts H \<noteq> {} \<longrightarrow> X = H"
  proof -
    have "H \<in> set (sortOffers arranged)" using assms(1) sets by (simp add: set_sortOffers)
    moreover have "\<forall>X \<in> set (sortOffers arranged). \<not> stackable X \<and> priority H \<le> priority X \<and>
              itemProducts X \<inter> itemProducts H \<noteq> {} \<longrightarrow> X = H"
      using alone sets by (simp add: set_sortOffers)
    ultimately show ?thesis
      unfolding a using first_unblocked_accepted [OF sorted_sortOffers st _ assms(3)] by blast
  qed
  then show ?thesis using both by blast
qed

text \<open>
  The amended claim C4 at the list of L and H: H is output, L is not.
\<close>
theorem stacking_priority_witness:
  "campaignH \<in> set [campaignL, campaignH] \<and> campaignL \<in> set [campaignL, campaignH] \<and>
   \<not> stackable campaignH \<and> \<not> stackable campaignL \<and> priority campaignL < priority campaignH \<and>
   itemProducts campaignH \<inter> itemProducts campaignL \<noteq> {} \<and>
   mset [campaignH, campaignL] = mset [campaignL, campaignH] \<and>
   applyStacking [campaignL, campaignH] = Inr [campaignH] \<and>
   campaignH \<in> set [campaignH] \<and> campaignL \<notin> set [campaignH]"
proof -
  have h1: "campaignH \<in> set [campaignH, campaignL]" and h2: "campaignL \<in> set [campaignH, campaignL]"
    by simp_all
  have h3: "\<not> stackable campaignH" and h4: "\<not> stackable campaignL"
    and h5: "priority campaignL < priority campaignH" by simp_all
  have h6: "itemProducts campaignH \<inter> itemProducts campaignL \<noteq> {}" by simp
  have h7: "mset [campaignL, campaignH] = mset [campaignH, campaignL]" by simp
  note inst = stacking_priority [OF h1 h2 h3 h4 h5 h6 h7 apply_LH]
  have "\<forall>X \<in> set [campaignH, campaignL]. \<not> stackable X \<and> priority campaignH \<le> priority X \<and>
              itemProducts X \<inter> itemProducts campaignH \<noteq> {} \<longrightarrow> X = campaignH"
    by simp
  with inst have "campaignH \<in> set [campaignH] \<and> campaignL \<notin> set [campaignH]" by blast
  then show ?thesis using h3 h4 h5 h6 apply_LH by simp
qed

section \<open>Verification: targeting filter\<close>

lemma populateOffer_id [simp]: "c_id (populateOffer catalog c) = c_id c"
  by (simp add: populateOffer_def)

lemma geoStep_known:
  assumes "\<exists>known \<in> set offers. c_id known = c_id offer"
  shows "geoStep db geoWithin coords offers offer = offers"
proof -
  have "find (\<lambda>known. c_id known = c_id offer) offers \<noteq> None"
    using assms unfolding find_None_iff by blast
  then show ?thesis by (auto simp add: geoStep_def)
qed

lemma foldl_geoStep_known:
  "\<forall>g \<in> set gs. \<exists>known \<in> set offers. c_id known = c_id g \<Longrightarrow>
   foldl (geoStep db geoWithin coords) offers gs = offers"
  by (induction gs) (simp_all add: geoStep_known)

lemma selectOffers_is_baseQuery:
  assumes "selectOffers db geoWithin now ctx = Inr selected"
  shows "selected =
     map (populateOffer (productDocs db)) (filter (baseQuery now ctx) (offerCampaigns db))"
proof (cases "userCoordinates ctx")
  case None
  then show ?thesis using assms by (simp add: selectOffers_def split: if_splits)
next
  case (Some coords)
  let ?offers = "map (populateOffer (productDocs db)) (filter (baseQuery now ctx) (offerCampaigns db))"
  have "\<forall>g \<in> set (filter (\<lambda>c. baseQuery now ctx c \<and> geo c \<noteq> None) (offerCampaigns db)).
          \<exists>known \<in> set ?offers. c_id known = c_id g"
  proof
    fix g assume "g \<in> set (filter (\<lambda>c. baseQuery now ctx c \<and> geo c \<noteq> None) (offerCampaigns db))"
    then have "populateOffer (productDocs db) g \<in> set ?offers" by simp
    then show "\<exists>known \<in> set ?offers. c_id known = c_id g"
      using populateOffer_id by blast
  qed
  from foldl_geoStep_known [OF this] show ?thesis
    using Some assms by (simp add: selectOffers_def split: if_splits)
qed

lemma geoOnly_not_admitted:
  "geo c \<noteq> None \<Longrightarrow> branches c = [] \<Longrightarrow> cities c = [] \<Longrightarrow> branch c = None \<Longrightarrow>
   \<not> baseQuery now ctx c"
  by (simp add: baseQuery_def locationConditions_def branchCondition_def cityCondition_def
      globalCondition_def)

lemma haversine_same: "haversine R lat lon lat lon = 0"
  by (simp add: haversine_def atan2_def)

lemma calculateDistanceMeters_same [simp]: "calculateDistanceMeters lat lon lat lon = 0"
  by (simp only: calculateDistanceMeters_def haversine_same)

lemma centre_context:
  "resolveContext circleDb centreRequest =
     Inr \<lparr> userBranchId = None, userCity = None, userCoordinates = Some (46.6753, 24.7136) \<rparr>"
  by (simp add: resolveContext_def circleDb_def centreRequest_def truthyStr_def)

lemma riyadhCircle_fields:
  "geo riyadhCircle = Some (GeoPoint 46.6753 24.7136 (Some 5000))"
  "branches riyadhCircle = []" "cities riyadhCircle = []" "branch riyadhCircle = None"
  "isActive riyadhCircle" "startsAt riyadhCircle = None" "endsAt riyadhCircle = None"
  by (simp_all add: riyadhCircle_def plainOffer_def)

lemma calculateEffectivePrices_ignores_location:
  "calculateEffectivePrices db now products branchId userLocation =
   calculateEffectivePrices db now products branchId None"
  by (simp add: calculateEffectivePrices_def tryCalculate_def)

text \<open>
  Claim C2 at a request sent from the centre of a campaign's circle, with no branch in the
  store: the campaign is temporally active and its geofence contains the coordinates (the
  claim's admission test holds, and so does the handler's own \<^verbatim>\<open>includeOffer\<close> test), yet
  the targeting filter selects nothing. The geo pass queries with \<^verbatim>\<open>baseQuery\<close> after the
  location conditions were pushed onto it, so it only ever meets campaigns that the main
  query has already selected.
\<close>
theorem geofenced_campaign_not_selected:
  "resolveContext circleDb centreRequest =
     Inr \<lparr> userBranchId = None, userCity = None, userCoordinates = Some (46.6753, 24.7136) \<rparr> \<and>
   specAdmits (\<lambda>c coords. False) 0
     \<lparr> userBranchId = None, userCity = None, userCoordinates = Some (46.6753, 24.7136) \<rparr>
     riyadhCircle \<and>
   includeOffer (\<lambda>c coords. False) (46.6753, 24.7136) riyadhCircle \<and>
   targetedOffers circleDb (\<lambda>c coords. False) 0 centreRequest = Inr []"
proof -
  let ?ctx = "\<lparr> userBranchId = None, userCity = None, userCoordinates = Some (46.6753, 24.7136) \<rparr>"
  have a: "specAdmits (\<lambda>c coords. False) 0 ?ctx riyadhCircle"
    by (simp add: specAdmits_def specGeofenceAdmits_def temporallyActive_def riyadhCircle_fields)
  have i: "includeOffer (\<lambda>c coords. False) (46.6753, 24.7136) riyadhCircle"
    by (simp add: includeOffer_def riyadhCircle_fields truthyNum_def)
  have n: "\<not> baseQuery 0 ?ctx riyadhCircle"
    by (rule geoOnly_not_admitted) (simp_all add: riyadhCircle_fields)
  obtain selected where s: "selectOffers circleDb (\<lambda>c coords. False) 0 ?ctx = Inr selected"
    by (simp add: selectOffers_def truthyStr_def circleDb_def)
  from selectOffers_is_baseQuery [OF s] n have "selected = []"
    by (simp add: circleDb_def)
  then have "targetedOffers circleDb (\<lambda>c coords. False) 0 centreRequest = Inr []"
    using s by (simp add: targetedOffers_def centre_context)
  then show ?thesis using a i centre_context by simp
qed

section \<open>Verification: product conflicts\<close>

lemma populateOffer_items [simp]:
  "items (populateOffer catalog c) = map (populateItem catalog) (items c)"
  by (simp add: populateOffer_def)

lemma populateOffer_title [simp]: "title (populateOffer catalog c) = title c"
  by (simp add: populateOffer_def)

lemma populateItem_product [simp]:
  "product (populateItem catalog item) = populateProduct catalog (product item)"
  by (simp add: populateItem_def)

lemma lowerCase_cast: "list_all lowerCaseId ids \<Longrightarrow> map objectIdString ids = ids"
  by (induction ids) (simp_all add: lowerCaseId_def)

lemma conflictingProducts_resolvable:
  "list_all (\<lambda>item. populateProduct catalog (product item) \<noteq> None) its \<Longrightarrow>
   conflictingProducts ids (map (populateItem catalog) its) =
     Inr (map p_title
            (filter (\<lambda>pr. p_id pr \<in> set ids)
               (concat (map (\<lambda>item. case populateProduct catalog (product item) of
                                       None \<Rightarrow> [] | Some pr \<Rightarrow> [pr]) its))))"
  by (induction its) auto

lemma conflictDetails_resolvable:
  "list_all (resolvable catalog) cs \<Longrightarrow> list_all lowerCaseId ids \<Longrightarrow>
   conflictDetails ids (map (populateOffer catalog) cs) = Inr (map (detailOf catalog ids) cs)"
proof (induction cs)
  case Nil
  then show ?case by simp
next
  case (Cons c cs)
  then have "conflictingProducts ids (map (populateItem catalog) (items c)) =
               Inr (overlappingTitles catalog ids c)"
    by (simp add: resolvable_def overlappingTitles_def conflictingProducts_resolvable
          lowerCase_cast)
  then show ?case using Cons by (simp add: detailOf_def)
qed

lemma checkProductConflicts_not_clear:
  assumes "c \<in> set (offerCampaigns db)" "conflictQuery now ids excl target c"
  shows "checkProductConflicts db now ids excl target \<noteq> Inr None"
proof -
  have "filter (conflictQuery now ids excl target) (offerCampaigns db) \<noteq> []"
    using assms by (auto simp: filter_empty_conv)
  then show ?thesis
    by (auto simp: checkProductConflicts_def Let_def split: sum.splits)
qed

lemma checkProductConflicts_listing:
  assumes "list_all validObjectId ids"
    and "list_all lowerCaseId ids"
    and "truthyStr target \<longrightarrow> validObjectId (the target)"
    and "truthyStr excl \<longrightarrow> validObjectId (the excl)"
    and "reachable db"
    and "filter (conflictQuery now ids excl target) (offerCampaigns db) \<noteq> []"
    and "list_all (resolvable (productDocs db))
           (filter (conflictQuery now ids excl target) (offerCampaigns db))"
  shows "checkProductConflicts db now ids excl target =
           Inr (Some (map (detailOf (productDocs db) ids)
                        (filter (conflictQuery now ids excl target) (offerCampaigns db))))"
  using assms by (simp add: checkProductConflicts_def Let_def conflictDetails_resolvable)

lemma createOffer_rejects:
  assumes "dto_items dto \<noteq> []" "c \<in> set (offerCampaigns db)"
    "conflictQuery now (map product (dto_items dto)) None (createTargetBranch user dto) c"
  shows "\<exists>e. createOffer db now user dto newId = Inl e"
proof -
  note nc = checkProductConflicts_not_clear [OF assms(2,3)]
  show ?thesis
  proof (cases "checkProductConflicts db now (map product (dto_items dto)) None (createTargetBranch user dto)")
    case (Inl e)
    then show ?thesis using assms(1) by (simp add: createOffer_def Let_def)
  next
    case (Inr r)
    then obtain conflicts where "r = Some conflicts" using nc by (cases r) auto
    then show ?thesis using Inr assms(1) by (simp add: createOffer_def Let_def)
  qed
qed

lemma createOffer_listing:
  assumes "dto_items dto \<noteq> []"
    and "list_all validObjectId (map product (dto_items dto))"
    and "list_all lowerCaseId (map product (dto_items dto))"
    and "reachable db"
    and "length (filter (\<lambda>p. p_id p \<in> set (map objectIdString (map product (dto_items dto))))
                   (productDocs db)) = length (dto_items dto)"
    and "truthyStr (createTargetBranch user dto) \<longrightarrow> validObjectId (the (createTargetBranch user dto))"
    and "filter (conflictQuery now (map product (dto_items dto)) None (createTargetBranch user dto))
           (offerCampaigns db) \<noteq> []"
    and "list_all (resolvable (productDocs db))
           (filter (conflictQuery now (map product (dto_items dto)) None (createTargetBranch user dto))
              (offerCampaigns db))"
  shows "createOffer db now user dto newId =
           Inl (productConflict
                  (map (detailOf (productDocs db) (map product (dto_items dto)))
                     (filter (conflictQuery now (map product (dto_items dto)) None
                                (createTargetBranch user dto))
                        (offerCampaigns db))))"
proof -
  have "checkProductConflicts db now (map product (dto_items dto)) None (createTargetBranch user dto) =
          Inr (Some (map (detailOf (productDocs db) (map product (dto_items dto)))
                     (filter (conflictQuery now (map product (dto_items dto)) None
                                (createTargetBranch user dto))
                        (offerCampaigns db))))"
    by (rule checkProductConflicts_listing) (use assms in \<open>simp_all add: truthyStr_def\<close>)
  then show ?thesis using assms(1,2,4,5) by (simp add: createOffer_def Let_def)
qed

lemma updateOffer_rejects:
  assumes "find (\<lambda>c. c_id c = objectIdString ident) (offerCampaigns db) = Some offer"
    and "up_items upd = Some newItems"
    and "c \<in> set (offerCampaigns db)"
    and "conflictQuery now (map product newItems) (Some ident) (updateTargetBranch user upd offer) c"
  shows "\<exists>e. updateOffer db now user ident upd = Inl e"
proof -
  note nc = checkProductConflicts_not_clear [OF assms(3,4)]
  show ?thesis
  proof (cases "checkProductConflicts db now (map product newItems) (Some ident) (updateTargetBranch user upd offer)")
    case (Inl e)
    then show ?thesis using assms(1,2) by (simp add: updateOffer_def Let_def)
  next
    case (Inr r)
    then obtain conflicts where "r = Some conflicts" using nc by (cases r) auto
    then show ?thesis using Inr assms(1,2) by (simp add: updateOffer_def Let_def)
  qed
qed

lemma updateOffer_listing:
  assumes "validObjectId ident" and "reachable db"
    and "find (\<lambda>c. c_id c = objectIdString ident) (offerCampaigns db) = Some offer"
    and "\<not> (role user = BranchRole \<and> branch offer \<noteq> None \<and>
             branch offer \<noteq> map_option objectIdString (u_branchId user))"
    and "\<not> (role user = AdminRole \<and> up_branch upd \<noteq> None \<and> truthyStr (the (up_branch upd)) \<and>
             \<not> validObjectId (the (the (up_branch upd))))"
    and "up_items upd = Some newItems"
    and "list_all validObjectId (map product newItems)"
    and "list_all lowerCaseId (map product newItems)"
    and "truthyStr (updateTargetBranch user upd offer) \<longrightarrow>
           validObjectId (the (updateTargetBranch user upd offer))"
    and "filter (conflictQuery now (map product newItems) (Some ident)
                   (updateTargetBranch user upd offer)) (offerCampaigns db) \<noteq> []"
    and "list_all (resolvable (productDocs db))
           (filter (conflictQuery now (map product newItems) (Some ident)
                      (updateTargetBranch user upd offer)) (offerCampaigns db))"
  shows "updateOffer db now user ident upd =
           Inl (productConflict
                  (map (detailOf (productDocs db) (map product newItems))
                     (filter (conflictQuery now (map product newItems) (Some ident)
                                (updateTargetBranch user upd offer))
                        (offerCampaigns db))))"
proof -
  have "checkProductConflicts db now (map product newItems) (Some ident) (updateTargetBranch user upd offer) =
          Inr (Some (map (detailOf (productDocs db) (map product newItems))
                     (filter (conflictQuery now (map product newItems) (Some ident)
                                (updateTargetBranch user upd offer))
                        (offerCampaigns db))))"
    by (rule checkProductConflicts_listing) (use assms in \<open>simp_all add: truthyStr_def\<close>)
  then show ?thesis using assms(1-6) by (auto simp add: updateOffer_def Let_def)
qed

lemma valid_ids [simp]:
  "validObjectId ''64b7f0c2a1d3e4f5a6b7c8d9''" "validObjectId ''64b7f0c2a1d3e4f5a6b7c8d0''"
  "validObjectId ''64b7f0c2a1d3e4f5a6b7c8aa''" "validObjectId ''64b7f0c2a1d3e4f5a6b7c8ab''"
  "validObjectId ''64b7f0c2a1d3e4f5a6b7c8b1''" "validObjectId ''64B7F0C2A1D3E4F5A6B7C8D9''"
  by (simp_all add: validObjectId_def)

lemma cast_ids [simp]:
  "objectIdString ''64b7f0c2a1d3e4f5a6b7c8d9'' = ''64b7f0c2a1d3e4f5a6b7c8d9''"
  "objectIdString ''64b7f0c2a1d3e4f5a6b7c8d0'' = ''64b7f0c2a1d3e4f5a6b7c8d0''"
  "objectIdString ''64b7f0c2a1d3e4f5a6b7c8ab'' = ''64b7f0c2a1d3e4f5a6b7c8ab''"
  "objectIdString ''64b7f0c2a1d3e4f5a6b7c8b1'' = ''64b7f0c2a1d3e4f5a6b7c8b1''"
  "objectIdString ''64B7F0C2A1D3E4F5A6B7C8D9'' = ''64b7f0c2a1d3e4f5a6b7c8d9''"
  by (simp_all add: objectIdString_def lowerHex_def)

lemma summer_fields [simp]:
  "isActive summerSale" "startsAt summerSale = Some 100" "endsAt summerSale = Some 200"
  "branch summerSale = None" "title summerSale = ''Summer''"
  "c_id summerSale = ''64b7f0c2a1d3e4f5a6b7c8aa''"
  "items summerSale = [\<lparr> product = ''64b7f0c2a1d3e4f5a6b7c8d9'', offerPrice = Some 5, percent = None \<rparr>]"
  by (simp_all add: summerSale_def plainOffer_def)

lemma autumn_fields [simp]:
  "isActive autumnSale" "startsAt autumnSale = None" "endsAt autumnSale = None"
  "branch autumnSale = None" "title autumnSale = ''Autumn''"
  "c_id autumnSale = ''64b7f0c2a1d3e4f5a6b7c8ab''"
  "items autumnSale = [\<lparr> product = ''64b7f0c2a1d3e4f5a6b7c8d0'', offerPrice = Some 7, percent = None \<rparr>]"
  by (simp_all add: autumnSale_def plainOffer_def)

lemma winter_fields [simp]:
  "isActive winterSale" "startsAt winterSale = None" "endsAt winterSale = None"
  "items winterSale = []" "productIds winterSale = [''64b7f0c2a1d3e4f5a6b7c8d9'']"
  "isActive springSale" "startsAt springSale = None" "endsAt springSale = None"
  "items springSale = []" "productIds springSale = []" "categoryIds springSale = [''cat1'']"
  by (simp_all add: winterSale_def springSale_def plainOffer_def)

lemma shop_fields [simp]:
  "offerCampaigns shopDb = [summerSale]" "productDocs shopDb = [validProduct]" "reachable shopDb"
  "offerCampaigns winterDb = [winterSale, springSale]"
  "productDocs winterDb = [validProduct]"
  "reachable winterDb"
  "offerCampaigns twoOfferDb = [summerSale, autumnSale]"
  "productDocs twoOfferDb = [validProduct, otherProduct]" "reachable twoOfferDb"
  by (simp_all add: shopDb_def winterDb_def twoOfferDb_def)

lemma validProduct_fields [simp]:
  "p_id validProduct = ''64b7f0c2a1d3e4f5a6b7c8d9''" "p_title validProduct = ''Product''"
  "p_id otherProduct = ''64b7f0c2a1d3e4f5a6b7c8d0''" "p_title otherProduct = ''Other''"
  by (simp_all add: validProduct_def otherProduct_def plainProduct_def)

lemma user_fields [simp]:
  "role adminUser = AdminRole" "u_branchId adminUser = None"
  "role branchUser = BranchRole" "u_branchId branchUser = Some ''64b7f0c2a1d3e4f5a6b7c8b1''"
  by (simp_all add: adminUser_def branchUser_def)

lemma dto_fields [simp]:
  "dto_title overlappingDto = ''Autumn''" "dto_applyMode overlappingDto = PerItem"
  "dto_branch overlappingDto = None" "dto_branch missingProductDto = None"
  "dto_branch upperCaseDto = None"
  "dto_items overlappingDto = [\<lparr> product = ''64b7f0c2a1d3e4f5a6b7c8d9'', offerPrice = Some 4, percent = None \<rparr>]"
  "dto_items missingProductDto =
       [\<lparr> product = ''64b7f0c2a1d3e4f5a6b7c8d9'', offerPrice = Some 4, percent = None \<rparr>,
        \<lparr> product = ''64b7f0c2a1d3e4f5a6b7c8d0'', offerPrice = Some 4, percent = None \<rparr>]"
  "dto_items upperCaseDto = [\<lparr> product = ''64B7F0C2A1D3E4F5A6B7C8D9'', offerPrice = Some 4, percent = None \<rparr>]"
  by (simp_all add: overlappingDto_def missingProductDto_def upperCaseDto_def)

lemma update_fields [simp]:
  "up_branch itemsUpdate = None"
  "up_items itemsUpdate =
     Some [\<lparr> product = ''64b7f0c2a1d3e4f5a6b7c8d9'', offerPrice = Some 4, percent = None \<rparr>]"
  by (simp_all add: itemsUpdate_def)

lemma targets [simp]:
  "createTargetBranch adminUser overlappingDto = None"
  "createTargetBranch adminUser missingProductDto = None"
  "createTargetBranch adminUser upperCaseDto = None"
  "createTargetBranch branchUser overlappingDto = Some ''64b7f0c2a1d3e4f5a6b7c8b1''"
  "updateTargetBranch branchUser itemsUpdate autumnSale = Some ''64b7f0c2a1d3e4f5a6b7c8b1''"
  by (simp_all add: createTargetBranch_def updateTargetBranch_def truthyStr_def)

lemma summer_conflicts:
  "conflictQuery 150 [''64b7f0c2a1d3e4f5a6b7c8d9'', ''64b7f0c2a1d3e4f5a6b7c8d0''] None None summerSale"
  "conflictQuery 150 [''64B7F0C2A1D3E4F5A6B7C8D9''] None None summerSale"
  "conflictQuery 150 [''64b7f0c2a1d3e4f5a6b7c8d9''] None (Some ''64b7f0c2a1d3e4f5a6b7c8b1'') summerSale"
  "conflictQuery 150 [''64b7f0c2a1d3e4f5a6b7c8d9''] (Some ''64b7f0c2a1d3e4f5a6b7c8ab'')
     (Some ''64b7f0c2a1d3e4f5a6b7c8b1'') summerSale"
  by (simp_all add: conflictQuery_def truthyStr_def)

lemma autumn_clear:
  "\<not> conflictQuery 150 [''64b7f0c2a1d3e4f5a6b7c8d9''] None (Some ''64b7f0c2a1d3e4f5a6b7c8b1'') autumnSale"
  "\<not> conflictQuery 150 [''64b7f0c2a1d3e4f5a6b7c8d9''] (Some ''64b7f0c2a1d3e4f5a6b7c8ab'')
     (Some ''64b7f0c2a1d3e4f5a6b7c8b1'') autumnSale"
  by (simp_all add: conflictQuery_def truthyStr_def)

lemma winter_clear:
  "\<not> conflictQuery 150 [''64b7f0c2a1d3e4f5a6b7c8d9''] None None winterSale"
  "\<not> conflictQuery 150 [''64b7f0c2a1d3e4f5a6b7c8d9''] None None springSale"
  by (simp_all add: conflictQuery_def)

lemma winter_covers:
  "appliesToProduct (populateOffer [validProduct] winterSale) validProduct"
  "appliesToProduct (populateOffer [validProduct] springSale) validProduct"
  by (simp_all add: appliesToProduct_def populateOffer_def directItem_def productCategoryId_def
        validProduct_def plainProduct_def)

lemma winter_accepted:
  "\<not> isl (createOffer winterDb 150 adminUser overlappingDto ''64b7f0c2a1d3e4f5a6b7c8ad'')"
  by (simp add: createOffer_def checkProductConflicts_def winter_clear truthyStr_def
        saveOffer_def offerWithinSchema_def itemWithinSchema_def castItem_def)

lemma upper_rejected:
  "createOffer shopDb 150 adminUser upperCaseDto ''64b7f0c2a1d3e4f5a6b7c8ad'' =
     Inl (productConflict [\<lparr> offerTitle = ''Summer'', conflictProducts = [] \<rparr>])"
  by (simp add: createOffer_def checkProductConflicts_def summer_conflicts truthyStr_def
        populateProduct_def)

lemma upper_overlap:
  "overlappingTitles [validProduct] [''64B7F0C2A1D3E4F5A6B7C8D9''] summerSale = [''Product'']"
  by (simp add: overlappingTitles_def populateProduct_def)

text \<open>
  Claim C8 as stated fails, in three ways. (1) The submission names a product that the
  active campaign ``Summer'' already lists, together with a product that does not exist;
  the write is rejected with \<^verbatim>\<open>PRODUCTS_NOT_FOUND\<close>, which names neither the campaign nor the
  product. (2) The active campaigns ``Winter'' and ``Spring'' cover the submitted product,
  one through its \<^verbatim>\<open>productIds\<close> and one through its \<^verbatim>\<open>categoryIds\<close>, and have no item on
  it; the write is accepted. (3) The submission spells
  the id of the product that ``Summer'' lists in upper case; the write is rejected with
  \<^verbatim>\<open>PRODUCT_CONFLICT\<close>, and the entry of ``Summer'' lists no product.
\<close>
theorem conflict_rejection_not_always_listing:
  "(summerSale \<in> set (offerCampaigns shopDb) \<and>
    conflictQuery 150 (map product (dto_items missingProductDto)) None
      (createTargetBranch adminUser missingProductDto) summerSale \<and>
    createOffer shopDb 150 adminUser missingProductDto ''64b7f0c2a1d3e4f5a6b7c8ad'' =
      Inl (AppError ''One or more products not found'' 404 ''PRODUCTS_NOT_FOUND''))
   \<and> (winterSale \<in> set (offerCampaigns winterDb) \<and> temporallyActive 150 winterSale \<and>
       appliesToProduct (populateOffer (productDocs winterDb) winterSale) validProduct \<and>
       springSale \<in> set (offerCampaigns winterDb) \<and> temporallyActive 150 springSale \<and>
       appliesToProduct (populateOffer (productDocs winterDb) springSale) validProduct \<and>
       p_id validProduct \<in> set (map product (dto_items overlappingDto)) \<and>
       \<not> isl (createOffer winterDb 150 adminUser overlappingDto ''64b7f0c2a1d3e4f5a6b7c8ad''))
   \<and> (summerSale \<in> set (offerCampaigns shopDb) \<and>
       conflictQuery 150 (map product (dto_items upperCaseDto)) None
         (createTargetBranch adminUser upperCaseDto) summerSale \<and>
       overlappingTitles (productDocs shopDb) (map product (dto_items upperCaseDto)) summerSale
         = [''Product''] \<and>
       createOffer shopDb 150 adminUser upperCaseDto ''64b7f0c2a1d3e4f5a6b7c8ad'' =
         Inl (productConflict [\<lparr> offerTitle = ''Summer'', conflictProducts = [] \<rparr>]))"
proof -
  have "createOffer shopDb 150 adminUser missingProductDto ''64b7f0c2a1d3e4f5a6b7c8ad'' =
      Inl (AppError ''One or more products not found'' 404 ''PRODUCTS_NOT_FOUND'')"
    by (simp add: createOffer_def)
  then show ?thesis
    by (simp add: summer_conflicts winter_covers winter_accepted upper_rejected upper_overlap
          temporallyActive_def)
qed

text \<open>
  Claim C8, amended: creating an offer with submitted items, or updating an offer's items,
  is rejected whenever one of the submitted products is listed in the items of another
  campaign that is active, inside its date range at the time of the write and, when the
  write has a target branch, global or of that branch; the \<^verbatim>\<open>stackable\<close> flag plays no
  part, and a campaign that covers the product through \<^verbatim>\<open>productIds\<close> or \<^verbatim>\<open>categoryIds\<close>
  alone does not count. When the checks that precede the conflict check pass (well-formed
  ids, a reachable store, every submitted product found, and for an update the offer found
  and accessible), the submitted product ids are spelled in lower case and every item of
  the conflicting campaigns refers to an existing product, the rejection is the
  \<^verbatim>\<open>PRODUCT_CONFLICT\<close> error whose message lists each conflicting campaign's title with the
  titles of its products that are among the submitted ones.
\<close>
theorem conflicting_write_rejected:
  "(dto_items dto \<noteq> [] \<and> c \<in> set (offerCampaigns db) \<and>
    conflictQuery now (map product (dto_items dto)) None (createTargetBranch user dto) c
      \<longrightarrow> (\<exists>e. createOffer db now user dto newId = Inl e))
   \<and> (dto_items dto \<noteq> [] \<and> list_all validObjectId (map product (dto_items dto)) \<and>
       list_all lowerCaseId (map product (dto_items dto)) \<and> reachable db \<and>
       length (filter (\<lambda>p. p_id p \<in> set (map objectIdString (map product (dto_items dto))))
                 (productDocs db)) = length (dto_items dto) \<and>
       (truthyStr (createTargetBranch user dto)
          \<longrightarrow> validObjectId (the (createTargetBranch user dto))) \<and>
       filter (conflictQuery now (map product (dto_items dto)) None (createTargetBranch user dto))
         (offerCampaigns db) \<noteq> [] \<and>
       list_all (resolvable (productDocs db))
         (filter (conflictQuery now (map product (dto_items dto)) None
                    (createTargetBranch user dto)) (offerCampaigns db))
      \<longrightarrow> createOffer db now user dto newId =
            Inl (productConflict
                   (map (detailOf (productDocs db) (map product (dto_items dto)))
                      (filter (conflictQuery now (map product (dto_items dto)) None
                                 (createTargetBranch user dto))
                         (offerCampaigns db)))))
   \<and> (find (\<lambda>c. c_id c = objectIdString ident) (offerCampaigns db) = Some offer \<and>
       up_items upd = Some newItems \<and> c' \<in> set (offerCampaigns db) \<and>
       conflictQuery now (map product newItems) (Some ident)
         (updateTargetBranch user upd offer) c'
      \<longrightarrow> (\<exists>e. updateOffer db now user ident upd = Inl e))
   \<and> (validObjectId ident \<and> reachable db \<and>
       find (\<lambda>c. c_id c = objectIdString ident) (offerCampaigns db) = Some offer \<and>
       \<not> (role user = BranchRole \<and> branch offer \<noteq> None \<and>
            branch offer \<noteq> map_option objectIdString (u_branchId user)) \<and>
       \<not> (role user = AdminRole \<and> up_branch upd \<noteq> None \<and> truthyStr (the (up_branch upd)) \<and>
            \<not> validObjectId (the (the (up_branch upd)))) \<and>
       up_items upd = Some newItems \<and>
       list_all validObjectId (map product newItems) \<and>
       list_all lowerCaseId (map product newItems) \<and>
       (truthyStr (updateTargetBranch user upd offer)
          \<longrightarrow> validObjectId (the (updateTargetBranch user upd offer))) \<and>
       filter (conflictQuery now (map product newItems) (Some ident)
                 (updateTargetBranch user upd offer)) (offerCampaigns db) \<noteq> [] \<and>
       list_all (resolvable (productDocs db))
         (filter (conflictQuery now (map product newItems) (Some ident)
                    (updateTargetBranch user upd offer)) (offerCampaigns db))
      \<longrightarrow> updateOffer db now user ident upd =
            Inl (productConflict
                   (map (detailOf (productDocs db) (map product newItems))
                      (filter (conflictQuery now (map product newItems) (Some ident)
                                 (updateTargetBranch user upd offer))
                         (offerCampaigns db)))))"
proof -
  have a: "dto_items dto \<noteq> [] \<and> c \<in> set (offerCampaigns db) \<and>
    conflictQuery now (map product (dto_items dto)) None (createTargetBranch user dto) c
      \<longrightarrow> (\<exists>e. createOffer db now user dto newId = Inl e)"
    using createOffer_rejects by blast
  have b: "dto_items dto \<noteq> [] \<and> list_all validObjectId (map product (dto_items dto)) \<and>
       list_all lowerCaseId (map product (dto_items dto)) \<and> reachable db \<and>
       length (filter (\<lambda>p. p_id p \<in> set (map objectIdString (map product (dto_items dto))))
                 (productDocs db)) = length (dto_items dto) \<and>
       (truthyStr (createTargetBranch user dto)
          \<longrightarrow> validObjectId (the (createTargetBranch user dto))) \<and>
       filter (conflictQuery now (map product (dto_items dto)) None (createTargetBranch user dto))
         (offerCampaigns db) \<noteq> [] \<and>
       list_all (resolvable (productDocs db))
         (filter (conflictQuery now (map product (dto_items dto)) None
                    (createTargetBranch user dto)) (offerCampaigns db))
      \<longrightarrow> createOffer db now user dto newId =
            Inl (productConflict
                   (map (detailOf (productDocs db) (map product (dto_items dto)))
                      (filter (conflictQuery now (map product (dto_items dto)) None
                                 (createTargetBranch user dto))
                         (offerCampaigns db))))"
    using createOffer_listing by blast
  have c: "find (\<lambda>c. c_id c = objectIdString ident) (offerCampaigns db) = Some offer \<and>
       up_items upd = Some newItems \<and> c' \<in> set (offerCampaigns db) \<and>
       conflictQuery now (map product newItems) (Some ident)
         (updateTargetBranch user upd offer) c'
      \<longrightarrow> (\<exists>e. updateOffer db now user ident upd = Inl e)"
    using updateOffer_rejects by blast
  have d: "validObjectId ident \<and> reachable db \<and>
       find (\<lambda>c. c_id c = objectIdString ident) (offerCampaigns db) = Some offer \<and>
       \<not> (role user = BranchRole \<and> branch offer \<noteq> None \<and>
            branch offer \<noteq> map_option objectIdString (u_branchId user)) \<and>
       \<not> (role user = AdminRole \<and> up_branch upd \<noteq> None \<and> truthyStr (the (up_branch upd)) \<and>
            \<not> validObjectId (the (the (up_branch upd)))) \<and>
       up_items upd = Some newItems \<and>
       list_all validObjectId (map product newItems) \<and>
       list_all lowerCaseId (map product newItems) \<and>
       (truthyStr (updateTargetBranch user upd offer)
          \<longrightarrow> validObjectId (the (updateTargetBranch user upd offer))) \<and>
       filter (conflictQuery now (map product newItems) (Some ident)
                 (updateTargetBranch user upd offer)) (offerCampaigns db) \<noteq> [] \<and>
       list_all (resolvable (productDocs db))
         (filter (conflictQuery now (map product newItems) (Some ident)
                    (updateTargetBranch user upd offer)) (offerCampaigns db))
      \<longrightarrow> updateOffer db now user ident upd =
            Inl (productConflict
                   (map (detailOf (productDocs db) (map product newItems))
                      (filter (conflictQuery now (map product newItems) (Some ident)
                                 (updateTargetBranch user upd offer))
                         (offerCampaigns db))))"
    using updateOffer_listing [of ident db offer user upd newItems now] by blast
  show ?thesis using a b c d by blast
qed

lemma summer_detail:
  "detailOf [validProduct, otherProduct] [''64b7f0c2a1d3e4f5a6b7c8d9''] summerSale =
     \<lparr> offerTitle = ''Summer'', conflictProducts = [''Product''] \<rparr>"
  by (simp add: detailOf_def overlappingTitles_def populateProduct_def)

lemma lower_ids [simp]: "lowerCaseId ''64b7f0c2a1d3e4f5a6b7c8d9''"
  by (simp add: lowerCaseId_def)

text \<open>
  The amended claim C8 in a store that holds ``Summer'' (global, running from 100 to 200)
  and ``Autumn'': at time 150 the operator of a branch submits the product that ``Summer''
  lists, once to create an offer and once to update the items of ``Autumn''. Both writes
  are rejected with the listing of ``Summer'' and its product.
\<close>
theorem conflicting_write_rejected_witness:
  "createOffer twoOfferDb 150 branchUser overlappingDto ''64b7f0c2a1d3e4f5a6b7c8ad'' =
     Inl (productConflict [\<lparr> offerTitle = ''Summer'', conflictProducts = [''Product''] \<rparr>])
   \<and> updateOffer twoOfferDb 150 branchUser ''64b7f0c2a1d3e4f5a6b7c8ab'' itemsUpdate =
     Inl (productConflict [\<lparr> offerTitle = ''Summer'', conflictProducts = [''Product''] \<rparr>])"
proof -
  let ?ids = "[''64b7f0c2a1d3e4f5a6b7c8d9'']"
  have r: "resolvable [validProduct, otherProduct] summerSale"
    by (simp add: resolvable_def populateProduct_def)
  have found: "find (\<lambda>c. c_id c = ''64b7f0c2a1d3e4f5a6b7c8ab'') [summerSale, autumnSale]
                 = Some autumnSale"
    by simp
  note inst = conflicting_write_rejected [of overlappingDto summerSale twoOfferDb 150 branchUser
      "''64b7f0c2a1d3e4f5a6b7c8ad''" "''64b7f0c2a1d3e4f5a6b7c8ab''" autumnSale itemsUpdate
      "[\<lparr> product = ''64b7f0c2a1d3e4f5a6b7c8d9'', offerPrice = Some 4, percent = None \<rparr>]"
      summerSale]
  have "createOffer twoOfferDb 150 branchUser overlappingDto ''64b7f0c2a1d3e4f5a6b7c8ad'' =
          Inl (productConflict (map (detailOf [validProduct, otherProduct] ?ids) [summerSale]))"
    using inst by (simp add: r found truthyStr_def summer_conflicts autumn_clear)
  moreover
  have "updateOffer twoOfferDb 150 branchUser ''64b7f0c2a1d3e4f5a6b7c8ab'' itemsUpdate =
          Inl (productConflict (map (detailOf [validProduct, otherProduct] ?ids) [summerSale]))"
    using inst by (simp add: r found truthyStr_def summer_conflicts autumn_clear)
  ultimately show ?thesis by (simp add: summer_detail)
qed

lemma summer_message:
  "conflictMessage [\<lparr> offerTitle = ''Summer'', conflictProducts = [''Product''] \<rparr>] =
     ''Product conflict detected. '' @ [CHR 0x22] @ ''Summer'' @ [CHR 0x22] @
     '' already includes: Product. Please remove these products from existing offers first.''"
  by (simp add: conflictMessage_def)

section \<open>Verification: branch locator\<close>


lemma firstMin_None [simp]: "firstMin f xs = None \<longleftrightarrow> xs = []"
  by (induction xs) (auto split: option.splits)















lemma branch_fields [simp]:
  "b_isActive farBranch" "b_isActive nearBranch"
  "location farBranch = Some (180, 0)" "location nearBranch = Some (0, 0)"
  by (simp_all add: farBranch_def nearBranch_def)








section \<open>Verification: order creation\<close>

text \<open>
  Claim C7: for every order submission, if the subtotal recomputed by the server differs
  from the submitted subtotal by more than 0.01, or the recomputed subtotal plus shipping
  differs from the submitted total by more than 0.01, then \<^verbatim>\<open>createOrder\<close> fails and the
  store is left as it was: no order and no address is persisted. When the customer check
  passes, the failure is the subtotal or the total mismatch error.
\<close>
theorem order_mismatch_rejected:
  assumes "priceLines (catalogue store) now (od_items orderData) ([], 0) = Inr (orderItems, recomputed)"
    and "\<bar>recomputed - subtotal orderData\<bar> > 0.01 \<or>
         \<bar>(recomputed + shipping orderData) - total orderData\<bar> > 0.01"
  shows "(\<exists>e. createOrder geoDistance ipLocation store now orderData = (Inl e, store))
       \<and> (validObjectId (customerId orderData) \<and> reachable (catalogue store) \<and>
           find (\<lambda>c. cust_id c = customerId orderData) (customerDocs store) \<noteq> None
             \<longrightarrow> createOrder geoDistance ipLocation store now orderData =
                   (Inl (Error (if \<bar>recomputed - subtotal orderData\<bar> > 0.01
                                then ''Subtotal mismatch'' else ''Total amount mismatch'')),
                    store))"
proof -
  have a: "\<exists>e. createOrder geoDistance ipLocation store now orderData = (Inl e, store)"
    using assms by (auto simp: createOrder_def Let_def split: option.splits)
  have b: "createOrder geoDistance ipLocation store now orderData =
                   (Inl (Error (if \<bar>recomputed - subtotal orderData\<bar> > 0.01
                                then ''Subtotal mismatch'' else ''Total amount mismatch'')),
                    store)"
    if "validObjectId (customerId orderData) \<and> reachable (catalogue store) \<and>
           find (\<lambda>c. cust_id c = customerId orderData) (customerDocs store) \<noteq> None"
    using that assms by (auto simp: createOrder_def Let_def split: option.splits)
  show ?thesis using a b by blast
qed

lemma createOrder_failure_keeps_store:
  "createOrder geoDistance ipLocation store now orderData = (Inl e, store') \<Longrightarrow> store' = store"
  by (auto simp: createOrder_def Let_def split: option.splits sum.splits if_splits prod.splits)

lemma valid_customer_id [simp]: "validObjectId ''64b7f0c2a1d3e4f5a6b7c8c1''"
  by (simp add: validObjectId_def)

lemma validProduct_prices [simp]:
  "price validProduct = 20" "p_offerPrice validProduct = None"
  by (simp_all add: validProduct_def plainProduct_def)

lemma priceProduct_no_offers:
  "priceProduct [] p =
     \<lparr> w_id = Some (p_id p), originalPrice = Some (price p),
       effectivePrice = Some (round2 (price p)), hasOffer = False, offerDiscount = None,
       offerPercent = None, applicableOffers = None \<rparr>"
  by (simp add: priceProduct_def priceLoop_def)

lemma underpaid_priced:
  "priceLines (catalogue orderShop) 0 (od_items underpaidOrder) ([], 0) =
     Inr ([\<lparr> oi_product = ''64b7f0c2a1d3e4f5a6b7c8d9'', oi_title = ''Product'', oi_price = 20,
             oi_offerPrice = None, oi_quantity = 2, oi_subtotal = 40 \<rparr>], 40)"
  by (simp add: orderShop_def underpaidOrder_def applyOfferPricing_def
      calculateEffectivePrices_def tryCalculate_def inputId_def isIdString_def convertibleId_def truthyStr_def
      priceProduct_no_offers truthyNum_def)

text \<open>
  Claim C7 at an order of two units of the product priced 20 that submits the subtotal 30.
\<close>
theorem order_mismatch_rejected_witness:
  "priceLines (catalogue orderShop) 0 (od_items underpaidOrder) ([], 0) =
     Inr ([\<lparr> oi_product = ''64b7f0c2a1d3e4f5a6b7c8d9'', oi_title = ''Product'', oi_price = 20,
             oi_offerPrice = None, oi_quantity = 2, oi_subtotal = 40 \<rparr>], 40) \<and>
   \<bar>40 - subtotal underpaidOrder\<bar> > 0.01 \<and>
   createOrder (\<lambda>p q. 0) (\<lambda>ip. None) orderShop 0 underpaidOrder =
     (Inl (Error ''Subtotal mismatch''), orderShop)"
proof -
  have m: "\<bar>40 - subtotal underpaidOrder\<bar> > 0.01 \<or>
         \<bar>(40 + shipping underpaidOrder) - total underpaidOrder\<bar> > 0.01"
    by (simp add: underpaidOrder_def)
  have pre: "validObjectId (customerId underpaidOrder) \<and> reachable (catalogue orderShop) \<and>
           find (\<lambda>c. cust_id c = customerId underpaidOrder) (customerDocs orderShop) \<noteq> None"
    by (simp add: underpaidOrder_def orderShop_def)
  from order_mismatch_rejected [OF underpaid_priced m, of "\<lambda>p q. 0" "\<lambda>ip. None"] pre
  have "createOrder (\<lambda>p q. 0) (\<lambda>ip. None) orderShop 0 underpaidOrder =
          (Inl (Error (if \<bar>40 - subtotal underpaidOrder\<bar> > 0.01
                       then ''Subtotal mismatch'' else ''Total amount mismatch'')), orderShop)"
    by blast
  moreover have s: "\<bar>40 - subtotal underpaidOrder\<bar> > 0.01" by (simp add: underpaidOrder_def)
  ultimately show ?thesis using underpaid_priced by simp
qed

end
